theory Spec2Isabelle
  imports Main "HOL-Library.Char_ord"
begin

section \<open>Authorization core of the educational SaaS API\<close>

text \<open>
  A shallow embedding of the authentication, tenant and plan-limit (ABAC) middleware, of
  the password and token utilities and of the authentication service. JavaScript strings
  are modelled as \<^typ>\<open>string\<close>, one \<^typ>\<open>char\<close> per code unit (so the code units of the
  model are those below 256, and \<open>CHR 0xE1\<close> is the letter a with an acute accent); a
  value that may be \<open>undefined\<close> or \<open>null\<close> is an \<^typ>\<open>'a option\<close>. Calls to the logger
  only write to the log sink and are left out.
\<close>

subsection \<open>Promises, responses and JSON values\<close>

text \<open>An awaited promise either rejects (the \<open>catch\<close> block runs) or resolves.\<close>

datatype 'a promise = Rejected | Resolved 'a

text \<open>
  An Express middleware either calls \<open>next()\<close>, handing the request on, or sends a
  response with a status code and a message: \<open>badRequestResponse\<close> sends 400,
  \<open>unauthorizedResponse\<close> 401 and \<open>forbiddenResponse\<close> 403.
\<close>

datatype 'r middleware = Next 'r | Respond nat string

definition badRequestResponse :: "string \<Rightarrow> 'r middleware" where
  "badRequestResponse message = Respond 400 message"

definition unauthorizedResponse :: "string \<Rightarrow> 'r middleware" where
  "unauthorizedResponse message = Respond 401 message"

definition forbiddenResponse :: "string \<Rightarrow> 'r middleware" where
  "forbiddenResponse message = Respond 403 message"

text \<open>\<open>createAppError(message, statusCode)\<close>: the error the services throw.\<close>

datatype app_error = AppError (message: string) (statusCode: nat)

datatype json = JString string | JNumber int | JBool bool | JObject "(string \<times> json) list"

text \<open>Decimal rendering of a number inside a template string.\<close>

fun showNat :: "nat \<Rightarrow> string" where
  "showNat n = (if n < 10 then [''0123456789'' ! n]
                else showNat (n div 10) @ [''0123456789'' ! (n mod 10)])"

declare showNat.simps [simp del]

definition showInt :: "int \<Rightarrow> string" where
  "showInt i = (if i < 0 then CHR ''-'' # showNat (nat (- i)) else showNat (nat i))"

subsection \<open>Persistence: the tables of the migration that the core reads and writes\<close>

record user_row =
  u_id :: string
  u_institutionId :: "string option"
  u_email :: string
  u_password :: "string option"
  u_fullName :: string
  u_isActive :: bool
  u_attributes :: "json option"
  u_lastLogin :: "int option"

record role_row =
  ro_id :: string
  ro_name :: string

record userRole_row =
  ur_userId :: string
  ur_roleId :: string
  ur_isPrimary :: bool

record institution_row =
  in_id :: string
  in_name :: string
  in_status :: "string option"

record student_row =
  st_id :: string
  st_userId :: string
  st_institutionId :: string

record teacher_row =
  te_id :: string
  te_userId :: string

record career_row =
  ca_id :: string
  ca_institutionId :: string

record course_row =
  co_id :: string
  co_careerId :: string

record subject_row =
  su_id :: string
  su_courseId :: string

record virtualClassroom_row =
  vc_id :: string
  vc_subjectId :: string

record certificate_row =
  ce_id :: string
  ce_studentId :: string
  ce_issuedAt :: int

text \<open>
  The database behind the Prisma client. \<open>online\<close> says whether a query sent to it
  resolves; when it is false every query rejects.
\<close>

record database =
  online :: bool
  users :: "user_row list"
  roles :: "role_row list"
  userRoles :: "userRole_row list"
  institutions :: "institution_row list"
  students :: "student_row list"
  teachers :: "teacher_row list"
  careers :: "career_row list"
  courses :: "course_row list"
  subjects :: "subject_row list"
  virtualClassrooms :: "virtualClassroom_row list"
  certificates :: "certificate_row list"

definition query :: "database \<Rightarrow> 'a \<Rightarrow> 'a promise" where
  "query db r = (if online db then Resolved r else Rejected)"

text \<open>Relation filters of the count queries: the row reached through the foreign key.\<close>

definition career_of_institution :: "database \<Rightarrow> string \<Rightarrow> string \<Rightarrow> bool" where
  "career_of_institution db inst careerId \<longleftrightarrow>
     list_ex (\<lambda>k. ca_id k = careerId \<and> ca_institutionId k = inst) (careers db)"

definition course_of_institution :: "database \<Rightarrow> string \<Rightarrow> string \<Rightarrow> bool" where
  "course_of_institution db inst courseId \<longleftrightarrow>
     list_ex (\<lambda>c. co_id c = courseId \<and> career_of_institution db inst (co_careerId c)) (courses db)"

definition subject_of_institution :: "database \<Rightarrow> string \<Rightarrow> string \<Rightarrow> bool" where
  "subject_of_institution db inst subjectId \<longleftrightarrow>
     list_ex (\<lambda>s. su_id s = subjectId \<and> course_of_institution db inst (su_courseId s)) (subjects db)"

definition user_of_institution :: "database \<Rightarrow> string \<Rightarrow> string \<Rightarrow> bool" where
  "user_of_institution db inst userId \<longleftrightarrow>
     list_ex (\<lambda>u. u_id u = userId \<and> u_institutionId u = Some inst) (users db)"

definition student_of_institution :: "database \<Rightarrow> string \<Rightarrow> string \<Rightarrow> bool" where
  "student_of_institution db inst studentId \<longleftrightarrow>
     list_ex (\<lambda>s. st_id s = studentId \<and> st_institutionId s = inst) (students db)"

text \<open>\<open>prisma.student.count({ where: { institutionId } })\<close> and its siblings.\<close>

definition student_count :: "database \<Rightarrow> string \<Rightarrow> nat promise" where
  "student_count db inst =
     query db (length (filter (\<lambda>s. st_institutionId s = inst) (students db)))"

definition teacher_count :: "database \<Rightarrow> string \<Rightarrow> nat promise" where
  "teacher_count db inst =
     query db (length (filter (\<lambda>t. user_of_institution db inst (te_userId t)) (teachers db)))"

definition course_count :: "database \<Rightarrow> string \<Rightarrow> nat promise" where
  "course_count db inst =
     query db (length (filter (\<lambda>c. career_of_institution db inst (co_careerId c)) (courses db)))"

definition virtualClassroom_count :: "database \<Rightarrow> string \<Rightarrow> nat promise" where
  "virtualClassroom_count db inst =
     query db (length (filter (\<lambda>v. subject_of_institution db inst (vc_subjectId v))
                         (virtualClassrooms db)))"

definition certificate_count :: "database \<Rightarrow> string \<Rightarrow> int \<Rightarrow> nat promise" where
  "certificate_count db inst startOfMonth =
     query db (length (filter (\<lambda>c. student_of_institution db inst (ce_studentId c)
                                   \<and> startOfMonth \<le> ce_issuedAt c)
                         (certificates db)))"

subsection \<open>Requests and the ABAC context\<close>

text \<open>\<open>req.user\<close>, set by \<open>authenticate\<close>.\<close>

record auth_user =
  au_id :: string
  au_email :: string
  au_institutionId :: "string option"
  au_roleId :: string
  au_roleName :: string
  au_isActive :: bool
  au_attributes :: "json option"

record abac_user =
  cu_id :: string
  cu_roleId :: string
  cu_roleName :: string
  cu_institutionId :: "string option"

record abac_institution =
  ci_id :: string
  ci_planId :: "string option"
  ci_status :: string

text \<open>
  The plan of the ABAC context. \<open>features\<close> is the free-form JSON object of the plan,
  modelled by the truthiness of \<open>(plan.features || {})[name]\<close> for each name.
\<close>

record plan =
  plan_id :: string
  slug :: string
  features :: "string \<Rightarrow> bool"
  studentLimit :: int
  teacherLimit :: int
  adminLimit :: int
  courseLimit :: int
  aiTeacherCallsMonthly :: int
  aiStudentMinutesMonthly :: int
  certificateMonthly :: int
  virtualClassroomLimit :: int
  storageMB :: int

record ABACContext =
  ctx_user :: abac_user
  ctx_institution :: abac_institution
  ctx_plan :: "plan option"

record request =
  authorization :: "string option"
  params :: "(string \<times> string) list"
  user :: "auth_user option"
  token :: "string option"
  institutionId :: "string option"
  abac :: "ABACContext option"

text \<open>A string that is \<open>undefined\<close>, \<open>null\<close> or empty is falsy.\<close>

definition falsy :: "string option \<Rightarrow> bool" where
  "falsy s \<longleftrightarrow> (case s of None \<Rightarrow> True | Some v \<Rightarrow> v = [])"

subsection \<open>ABAC middleware: plan limits and plan features\<close>

text \<open>
  \<open>checkPlanLimits(resourceType, action)\<close>. \<open>startOfMonth\<close> is the first instant of the
  current month on the server's clock, which the source computes from \<open>new Date()\<close>.
  The \<open>switch\<close> selects the count query and the limit field; a rejected count query
  is caught and answered with 400.
\<close>

definition checkPlanLimits ::
  "string \<Rightarrow> string \<Rightarrow> database \<Rightarrow> int \<Rightarrow> request \<Rightarrow> request middleware" where
  "checkPlanLimits resourceType action db startOfMonth req =
     (if action \<noteq> ''create'' then Next req
      else case abac req of
        None \<Rightarrow> forbiddenResponse (''Plan requerido para esta operaci'' @ [CHR 0xF3] @ ''n'')
      | Some ctx \<Rightarrow>
         (case ctx_plan ctx of
            None \<Rightarrow> forbiddenResponse (''Plan requerido para esta operaci'' @ [CHR 0xF3] @ ''n'')
          | Some plan \<Rightarrow>
             (let institution = ctx_institution ctx;
                  selected =
                    (if resourceType = ''student'' then
                       Some (student_count db (ci_id institution), studentLimit plan)
                     else if resourceType = ''teacher'' then
                       Some (teacher_count db (ci_id institution), teacherLimit plan)
                     else if resourceType = ''course'' then
                       Some (course_count db (ci_id institution), courseLimit plan)
                     else if resourceType = ''virtualClassroom'' then
                       Some (virtualClassroom_count db (ci_id institution),
                             virtualClassroomLimit plan)
                     else if resourceType = ''certificate'' then
                       Some (certificate_count db (ci_id institution) startOfMonth,
                             certificateMonthly plan)
                     else None)
              in case selected of
                   None \<Rightarrow> Next req
                 | Some (Rejected, limit) \<Rightarrow>
                     badRequestResponse (''Error verificando l'' @ [CHR 0xED] @ ''mites del plan'')
                 | Some (Resolved currentCount, limit) \<Rightarrow>
                     if limit \<noteq> - 1 \<and> int currentCount \<ge> limit then
                       forbiddenResponse
                         (''L'' @ [CHR 0xED] @ ''mite del plan excedido para '' @ resourceType
                          @ '' ('' @ showNat currentCount @ ''/'' @ showInt limit @ '')'')
                     else Next req)))"

text \<open>\<open>checkPlanFeature(feature)\<close>.\<close>

definition checkPlanFeature :: "string \<Rightarrow> request \<Rightarrow> request middleware" where
  "checkPlanFeature feature req =
     (case abac req of
        None \<Rightarrow> forbiddenResponse ''Plan requerido para esta funcionalidad''
      | Some ctx \<Rightarrow>
         (case ctx_plan ctx of
            None \<Rightarrow> forbiddenResponse ''Plan requerido para esta funcionalidad''
          | Some plan \<Rightarrow>
             if feature = ''ai_teacher'' then
               (if aiTeacherCallsMonthly plan \<le> 0 then
                  forbiddenResponse ''Funcionalidad de IA para docentes no disponible en su plan''
                else Next req)
             else if feature = ''ai_student'' then
               (if aiStudentMinutesMonthly plan \<le> 0 then
                  forbiddenResponse
                    ''Funcionalidad de IA para estudiantes no disponible en su plan''
                else Next req)
             else if feature = ''certificates'' then
               (if certificateMonthly plan \<le> 0 then
                  forbiddenResponse
                    (''Generaci'' @ [CHR 0xF3] @ ''n de certificados no disponible en su plan'')
                else Next req)
             else
               (if \<not> features plan feature then
                  forbiddenResponse (''Funcionalidad '' @ feature @ '' no disponible en su plan'')
                else Next req)))"

text \<open>
  The words of the specification for the quota check, to be compared with the
  \<open>switch\<close> above: the resource kinds that are quota-gated, the limit field of the plan
  that matches a kind, and the live count of a kind scoped to the institution
  (certificates of the current month only).
\<close>

definition quotaKinds :: "string set" where
  "quotaKinds = {''student'', ''teacher'', ''course'', ''virtualClassroom'', ''certificate''}"

definition matchingLimit :: "string \<Rightarrow> plan \<Rightarrow> int" where
  "matchingLimit kind p =
     (if kind = ''student'' then studentLimit p
      else if kind = ''teacher'' then teacherLimit p
      else if kind = ''course'' then courseLimit p
      else if kind = ''virtualClassroom'' then virtualClassroomLimit p
      else certificateMonthly p)"

definition currentCount :: "string \<Rightarrow> database \<Rightarrow> int \<Rightarrow> string \<Rightarrow> nat promise" where
  "currentCount kind db startOfMonth inst =
     (if kind = ''student'' then student_count db inst
      else if kind = ''teacher'' then teacher_count db inst
      else if kind = ''course'' then course_count db inst
      else if kind = ''virtualClassroom'' then virtualClassroom_count db inst
      else certificate_count db inst startOfMonth)"

subsection \<open>Token utilities: bearer extraction\<close>

text \<open>
  \<open>String.prototype.split\<close> with a one-character separator: the pieces between the
  occurrences of the separator, the empty string giving one empty piece.
\<close>

fun js_split :: "char \<Rightarrow> string \<Rightarrow> string list" where
  "js_split sep [] = [[]]"
| "js_split sep (c # cs) =
     (if c = sep then [] # js_split sep cs
      else (case js_split sep cs of
              [] \<Rightarrow> [[c]]
            | p # ps \<Rightarrow> (c # p) # ps))"

text \<open>
  \<open>extractTokenFromHeader\<close>: a missing or empty header is falsy and gives \<open>null\<close>; otherwise
  the header is split at spaces and must have exactly two parts, the first being
  \<open>Bearer\<close>.
\<close>

definition extractTokenFromHeader :: "string option \<Rightarrow> string option" where
  "extractTokenFromHeader authHeader =
     (case authHeader of
        None \<Rightarrow> None
      | Some h \<Rightarrow>
          if h = [] then None
          else (let parts = js_split CHR '' '' h in
                if length parts \<noteq> 2 \<or> parts ! 0 \<noteq> ''Bearer'' then None
                else Some (parts ! 1)))"

subsection \<open>Tenant middleware: resource ownership\<close>

text \<open>
  The Prisma models named in \<open>modelMap\<close>, and the columns the migration gives their
  tables.
\<close>

datatype model =
  StudentModel | TeacherModel | CourseModel | CareerModel | VirtualClassroomModel | SubjectModel

definition scalarFields :: "model \<Rightarrow> string list" where
  "scalarFields m =
     (case m of
        StudentModel \<Rightarrow>
          [''id'', ''userId'', ''studentNumber'', ''institutionId'', ''careerId'',
           ''enrollmentDate'', ''status'', ''metadata'', ''createdAt'']
      | TeacherModel \<Rightarrow>
          [''id'', ''userId'', ''bio'', ''specialties'', ''hireDate'', ''createdAt'']
      | CourseModel \<Rightarrow>
          [''id'', ''careerId'', ''academicPeriodId'', ''name'', ''code'', ''description'',
           ''credits'', ''durationSemesters'', ''createdById'', ''createdAt'']
      | CareerModel \<Rightarrow>
          [''id'', ''institutionId'', ''name'', ''code'', ''level'', ''description'',
           ''createdById'', ''createdAt'']
      | VirtualClassroomModel \<Rightarrow>
          [''id'', ''subjectId'', ''code'', ''title'', ''teacherId'', ''aiEnabled'',
           ''aiConfig'', ''createdAt'', ''aiagentId'']
      | SubjectModel \<Rightarrow>
          [''id'', ''courseId'', ''name'', ''code'', ''description'', ''semester'',
           ''credits'', ''createdAt''])"

text \<open>
  \<open>modelMap[resourceModel]\<close>. The map is an object literal, so besides its six own keys
  it answers the names it inherits from \<open>Object.prototype\<close> with a value that is truthy
  but is no Prisma delegate.
\<close>

datatype model_entry = Delegate model | Inherited

definition objectPrototypeKeys :: "string list" where
  "objectPrototypeKeys =
     [''constructor'', ''hasOwnProperty'', ''isPrototypeOf'', ''propertyIsEnumerable'',
      ''toLocaleString'', ''toString'', ''valueOf'', ''__proto__'', ''__defineGetter__'',
      ''__defineSetter__'', ''__lookupGetter__'', ''__lookupSetter__'']"

definition modelMap :: "string \<Rightarrow> model_entry option" where
  "modelMap name =
     (if name = ''student'' then Some (Delegate StudentModel)
      else if name = ''teacher'' then Some (Delegate TeacherModel)
      else if name = ''course'' then Some (Delegate CourseModel)
      else if name = ''career'' then Some (Delegate CareerModel)
      else if name = ''virtualClassroom'' then Some (Delegate VirtualClassroomModel)
      else if name = ''subject'' then Some (Delegate SubjectModel)
      else if name \<in> set objectPrototypeKeys then Some Inherited
      else None)"

text \<open>
  \<open>model.findUnique({ where: { id }, select: { id: true, institutionId: true } })\<close>.
  Prisma Client validates the query against the model before it sends anything: a
  \<open>select\<close> that names a field the model does not have is rejected with a
  \<open>PrismaClientValidationError\<close>. Of the six models only \<open>Student\<close> and \<open>Career\<close>
  have an \<open>institutionId\<close>; for them the row with the given primary key is read and
  projected to the pair of its \<open>id\<close> and \<open>institutionId\<close>.
\<close>

definition findUnique_id_institutionId ::
  "model \<Rightarrow> database \<Rightarrow> string \<Rightarrow> (string \<times> string) option promise" where
  "findUnique_id_institutionId m db resourceId =
     (if \<not> set [''id'', ''institutionId''] \<subseteq> set (scalarFields m) then Rejected
      else case m of
        StudentModel \<Rightarrow>
          query db (map_option (\<lambda>s. (st_id s, st_institutionId s))
                      (find (\<lambda>s. st_id s = resourceId) (students db)))
      | CareerModel \<Rightarrow>
          query db (map_option (\<lambda>k. (ca_id k, ca_institutionId k))
                      (find (\<lambda>k. ca_id k = resourceId) (careers db)))
      | _ \<Rightarrow> Rejected)"

text \<open>
  \<open>validateResourceOwnership(resourceModel, resourceIdParam)\<close>. Whatever is thrown inside
  the \<open>try\<close> block (a rejected query, or the call of \<open>findUnique\<close> on an inherited
  value) is caught and answered with 403.
\<close>

definition validateResourceOwnership ::
  "string \<Rightarrow> string \<Rightarrow> database \<Rightarrow> request \<Rightarrow> request middleware" where
  "validateResourceOwnership resourceModel resourceIdParam db req =
     (if user req = None \<or> falsy (institutionId req) then
        badRequestResponse (''Contexto de autenticaci'' @ [CHR 0xF3] @ ''n/tenant requerido'')
      else if falsy (map_of (params req) resourceIdParam) then
        badRequestResponse (''Par'' @ [CHR 0xE1] @ ''metro '' @ resourceIdParam @ '' requerido'')
      else case map_of (params req) resourceIdParam of
        None \<Rightarrow>
          badRequestResponse (''Par'' @ [CHR 0xE1] @ ''metro '' @ resourceIdParam @ '' requerido'')
      | Some resourceId \<Rightarrow>
         (case modelMap resourceModel of
            None \<Rightarrow> badRequestResponse (''Modelo '' @ resourceModel @ '' no soportado'')
          | Some Inherited \<Rightarrow> forbiddenResponse ''Error validando propiedad del recurso''
          | Some (Delegate m) \<Rightarrow>
             (case findUnique_id_institutionId m db resourceId of
                Rejected \<Rightarrow> forbiddenResponse ''Error validando propiedad del recurso''
              | Resolved None \<Rightarrow> badRequestResponse ''Recurso no encontrado''
              | Resolved (Some resource) \<Rightarrow>
                  if Some (snd resource) \<noteq> institutionId req then
                    forbiddenResponse ''Acceso denegado a este recurso''
                  else Next req)))"

subsection \<open>Token utilities: signing and verification\<close>

record JwtPayload =
  jwt_userId :: string
  jwt_institutionId :: "string option"
  jwt_roleId :: string
  jwt_roleName :: string
  jwt_email :: string

record RefreshTokenPayload =
  rt_userId :: string
  rt_institutionId :: "string option"

record TokenPair =
  accessToken :: string
  refreshToken :: string
  expiresIn :: string
  tokenType :: string

text \<open>
  The \<open>jsonwebtoken\<close> library with the configured secrets, issuer and audience:
  \<open>jwt.verify\<close> throws one of its error classes or returns the payload, \<open>jwt.sign\<close>
  returns the token (\<open>None\<close> when it throws).
\<close>

datatype jwt_failure = TokenExpiredError | JsonWebTokenError | OtherError

record jsonwebtoken =
  verify_access :: "string \<Rightarrow> jwt_failure + JwtPayload"
  verify_refresh :: "string \<Rightarrow> jwt_failure + RefreshTokenPayload"
  sign_access :: "JwtPayload \<Rightarrow> string option"
  sign_refresh :: "RefreshTokenPayload \<Rightarrow> string option"
  JWT_EXPIRES_IN :: string

text \<open>A thrown plain \<open>Error\<close> is the \<open>Inl\<close> of its message.\<close>

definition verifyAccessToken :: "jsonwebtoken \<Rightarrow> string \<Rightarrow> string + JwtPayload" where
  "verifyAccessToken jwt tok =
     (case verify_access jwt tok of
        Inr decoded \<Rightarrow> Inr decoded
      | Inl TokenExpiredError \<Rightarrow> Inl ''Token expirado''
      | Inl JsonWebTokenError \<Rightarrow> Inl (''Token inv'' @ [CHR 0xE1] @ ''lido'')
      | Inl OtherError \<Rightarrow> Inl ''Error al verificar token'')"

definition verifyRefreshToken :: "jsonwebtoken \<Rightarrow> string \<Rightarrow> string + RefreshTokenPayload" where
  "verifyRefreshToken jwt tok =
     (case verify_refresh jwt tok of
        Inr decoded \<Rightarrow> Inr decoded
      | Inl TokenExpiredError \<Rightarrow> Inl ''Refresh token expirado''
      | Inl JsonWebTokenError \<Rightarrow> Inl (''Refresh token inv'' @ [CHR 0xE1] @ ''lido'')
      | Inl OtherError \<Rightarrow> Inl ''Error al verificar refresh token'')"

definition generateAccessToken :: "jsonwebtoken \<Rightarrow> JwtPayload \<Rightarrow> string + string" where
  "generateAccessToken jwt payload =
     (case sign_access jwt payload of
        Some tok \<Rightarrow> Inr tok
      | None \<Rightarrow> Inl ''Error al generar token de acceso'')"

definition generateRefreshToken :: "jsonwebtoken \<Rightarrow> RefreshTokenPayload \<Rightarrow> string + string" where
  "generateRefreshToken jwt payload =
     (case sign_refresh jwt payload of
        Some tok \<Rightarrow> Inr tok
      | None \<Rightarrow> Inl (''Error al generar token de actualizaci'' @ [CHR 0xF3] @ ''n''))"

definition generateTokenPair :: "jsonwebtoken \<Rightarrow> JwtPayload \<Rightarrow> string + TokenPair" where
  "generateTokenPair jwt userPayload =
     (case generateAccessToken jwt userPayload of
        Inl e \<Rightarrow> Inl e
      | Inr access \<Rightarrow>
         (case generateRefreshToken jwt
                 \<lparr>rt_userId = jwt_userId userPayload,
                  rt_institutionId = jwt_institutionId userPayload\<rparr> of
            Inl e \<Rightarrow> Inl e
          | Inr refresh \<Rightarrow>
              Inr \<lparr>accessToken = access, refreshToken = refresh,
                   expiresIn = JWT_EXPIRES_IN jwt, tokenType = ''Bearer''\<rparr>))"

subsection \<open>Loading a user with its role assignments and institution\<close>

text \<open>
  \<open>prisma.user.findUnique\<close> with \<open>include: { userRoles: { include: { role } },
  institution }\<close>: the role assignments of the user, each joined with its role, in the
  order of the table, and the institution the user's \<open>institutionId\<close> refers to.
\<close>

record user_with_relations =
  uw_user :: user_row
  uw_userRoles :: "(userRole_row \<times> role_row) list"
  uw_institution :: "institution_row option"

definition include_relations :: "database \<Rightarrow> user_row \<Rightarrow> user_with_relations" where
  "include_relations db u =
     \<lparr>uw_user = u,
      uw_userRoles =
        concat (map (\<lambda>ur. map (\<lambda>r. (ur, r)) (filter (\<lambda>r. ro_id r = ur_roleId ur) (roles db)))
                    (filter (\<lambda>ur. ur_userId ur = u_id u) (userRoles db))),
      uw_institution =
        (case u_institutionId u of
           None \<Rightarrow> None
         | Some i \<Rightarrow> find (\<lambda>inst. in_id inst = i) (institutions db))\<rparr>"

definition user_findUnique_id :: "database \<Rightarrow> string \<Rightarrow> user_with_relations option promise" where
  "user_findUnique_id db userId =
     query db (map_option (include_relations db) (find (\<lambda>u. u_id u = userId) (users db)))"

definition user_findUnique_email ::
  "database \<Rightarrow> string \<Rightarrow> user_with_relations option promise" where
  "user_findUnique_email db email =
     query db (map_option (include_relations db) (find (\<lambda>u. u_email u = email) (users db)))"

text \<open>\<open>user.institution?.status\<close>.\<close>

definition institution_status :: "user_with_relations \<Rightarrow> string option" where
  "institution_status u =
     (case uw_institution u of None \<Rightarrow> None | Some inst \<Rightarrow> in_status inst)"

text \<open>\<open>userRoles.find(ur => ur.isPrimary) || userRoles[0]\<close>.\<close>

definition primaryRole ::
  "(userRole_row \<times> role_row) list \<Rightarrow> (userRole_row \<times> role_row) option" where
  "primaryRole urs =
     (case find (\<lambda>ur. ur_isPrimary (fst ur)) urs of
        Some ur \<Rightarrow> Some ur
      | None \<Rightarrow> (case urs of [] \<Rightarrow> None | ur # _ \<Rightarrow> Some ur))"

subsection \<open>Authentication middleware\<close>

text \<open>
  \<open>authenticate\<close>. Every failure is answered by the middleware itself with a response;
  nothing is thrown to the caller.
\<close>

definition authenticate :: "jsonwebtoken \<Rightarrow> database \<Rightarrow> request \<Rightarrow> request middleware" where
  "authenticate jwt db req =
     (case extractTokenFromHeader (authorization req) of
        None \<Rightarrow> unauthorizedResponse ''Token de acceso requerido''
      | Some tok \<Rightarrow>
         (if tok = [] then unauthorizedResponse ''Token de acceso requerido''
          else
           (case verifyAccessToken jwt tok of
              Inl errorMessage \<Rightarrow> unauthorizedResponse errorMessage
            | Inr decoded \<Rightarrow>
               (case user_findUnique_id db (jwt_userId decoded) of
                  Rejected \<Rightarrow>
                    unauthorizedResponse (''Error de autenticaci'' @ [CHR 0xF3] @ ''n'')
                | Resolved None \<Rightarrow> unauthorizedResponse ''Usuario no encontrado''
                | Resolved (Some u) \<Rightarrow>
                   (if \<not> u_isActive (uw_user u) then unauthorizedResponse ''Usuario inactivo''
                    else if institution_status u \<noteq> Some ''active'' then
                      forbiddenResponse (''Instituci'' @ [CHR 0xF3] @ ''n inactiva'')
                    else
                     (case primaryRole (uw_userRoles u) of
                        None \<Rightarrow> forbiddenResponse ''Usuario sin roles activos''
                      | Some activeRole \<Rightarrow>
                          Next (req\<lparr>user := Some
                                      \<lparr>au_id = u_id (uw_user u),
                                       au_email = u_email (uw_user u),
                                       au_institutionId = u_institutionId (uw_user u),
                                       au_roleId = ur_roleId (fst activeRole),
                                       au_roleName = ro_name (snd activeRole),
                                       au_isActive = u_isActive (uw_user u),
                                       au_attributes = u_attributes (uw_user u)\<rparr>,
                                    token := Some tok\<rparr>)))))))"

text \<open>
  \<open>optionalAuthenticate\<close>: without a token the request is handed on; with a token it
  awaits \<open>authenticate(req, res, next)\<close>. Its \<open>catch\<close> block would call \<open>next()\<close>, but
  \<open>authenticate\<close> catches its own errors and answers them, so nothing reaches it.
\<close>

definition optionalAuthenticate ::
  "jsonwebtoken \<Rightarrow> database \<Rightarrow> request \<Rightarrow> request middleware" where
  "optionalAuthenticate jwt db req =
     (case extractTokenFromHeader (authorization req) of
        None \<Rightarrow> Next req
      | Some tok \<Rightarrow> if tok = [] then Next req else authenticate jwt db req)"

subsection \<open>Password utilities\<close>

definition minPasswordLength :: nat where
  "minPasswordLength = 8"

definition maxPasswordLength :: nat where
  "maxPasswordLength = 128"

datatype PasswordStrength = WEAK | MEDIUM | STRONG | VERY_STRONG

record PasswordValidationResult =
  isValid :: bool
  strength :: PasswordStrength
  errors :: "string list"
  suggestions :: "string list"

text \<open>The character classes \<open>[A-Z]\<close>, \<open>[a-z]\<close>, \<open>\d\<close> and \<open>[@$!%*?&]\<close>.\<close>

definition isUpper :: "char \<Rightarrow> bool" where
  "isUpper c \<longleftrightarrow> CHR ''A'' \<le> c \<and> c \<le> CHR ''Z''"

definition isLower :: "char \<Rightarrow> bool" where
  "isLower c \<longleftrightarrow> CHR ''a'' \<le> c \<and> c \<le> CHR ''z''"

definition isDigit :: "char \<Rightarrow> bool" where
  "isDigit c \<longleftrightarrow> CHR ''0'' \<le> c \<and> c \<le> CHR ''9''"

definition isSpecial :: "char \<Rightarrow> bool" where
  "isSpecial c \<longleftrightarrow> c \<in> set ''@$!%*?&''"

text \<open>
  Matching a literal pattern. With the \<open>i\<close> flag a pattern character and an input
  character match when their canonical forms are equal; the canonical form of an ASCII
  letter is its upper case, and no character outside ASCII has an ASCII canonical form,
  so for the ASCII patterns used here it is enough to canonicalise the ASCII letters.
\<close>

definition canonicalize :: "char \<Rightarrow> char" where
  "canonicalize c =
     (case map_of (zip ''abcdefghijklmnopqrstuvwxyz'' ''ABCDEFGHIJKLMNOPQRSTUVWXYZ'') c of
        Some u \<Rightarrow> u
      | None \<Rightarrow> c)"

definition charMatches :: "bool \<Rightarrow> char \<Rightarrow> char \<Rightarrow> bool" where
  "charMatches ignoreCase p c \<longleftrightarrow>
     (if ignoreCase then canonicalize p = canonicalize c else p = c)"

fun matchesAt :: "bool \<Rightarrow> string \<Rightarrow> string \<Rightarrow> bool" where
  "matchesAt ignoreCase [] s = True"
| "matchesAt ignoreCase (p # ps) [] = False"
| "matchesAt ignoreCase (p # ps) (c # cs) =
     (charMatches ignoreCase p c \<and> matchesAt ignoreCase ps cs)"

text \<open>\<open>pattern.test(s)\<close> for a literal pattern: the pattern matches at some position.\<close>

fun regexp_test :: "bool \<Rightarrow> string \<Rightarrow> string \<Rightarrow> bool" where
  "regexp_test ignoreCase pat [] = matchesAt ignoreCase pat []"
| "regexp_test ignoreCase pat (c # cs) =
     (matchesAt ignoreCase pat (c # cs) \<or> regexp_test ignoreCase pat cs)"

text \<open>
  \<open>commonPatterns\<close>: each pattern with its \<open>i\<close> flag (\<open>/123456/\<close> has none).
\<close>

definition commonPatterns :: "(bool \<times> string) list" where
  "commonPatterns =
     [(False, ''123456''), (True, ''password''), (True, ''qwerty''), (True, ''admin''),
      (True, ''letmein'')]"

text \<open>
  The two patterns of \<open>PASSWORD_PATTERNS\<close>. A lookahead \<open>(?=.*[a-z])\<close> at the start
  asks for a character of the class before the first line terminator; the body asks for
  at least eight characters, all of the listed class, up to the end of the input.
\<close>

definition lineTerminator :: "char \<Rightarrow> bool" where
  "lineTerminator c \<longleftrightarrow> c = CHR 0x0A \<or> c = CHR 0x0D"

definition lookahead :: "(char \<Rightarrow> bool) \<Rightarrow> string \<Rightarrow> bool" where
  "lookahead cls s \<longleftrightarrow> list_ex cls (takeWhile (\<lambda>c. \<not> lineTerminator c) s)"

definition strongCharset :: "char \<Rightarrow> bool" where
  "strongCharset c \<longleftrightarrow> isLower c \<or> isUpper c \<or> isDigit c \<or> isSpecial c"

definition strong_test :: "string \<Rightarrow> bool" where
  "strong_test s \<longleftrightarrow>
     lookahead isLower s \<and> lookahead isUpper s \<and> lookahead isDigit s
     \<and> 8 \<le> length s \<and> list_all strongCharset s"

definition veryStrong_test :: "string \<Rightarrow> bool" where
  "veryStrong_test s \<longleftrightarrow>
     lookahead isLower s \<and> lookahead isUpper s \<and> lookahead isDigit s
     \<and> lookahead isSpecial s \<and> 8 \<le> length s \<and> list_all strongCharset s"

definition evaluatePasswordStrength :: "string \<Rightarrow> PasswordStrength" where
  "evaluatePasswordStrength password =
     (if password = [] then WEAK
      else if veryStrong_test password then VERY_STRONG
      else if strong_test password then STRONG
      else if length password \<ge> minPasswordLength \<and> list_ex isUpper password
              \<and> list_ex isLower password \<and> list_ex isDigit password then MEDIUM
      else WEAK)"

text \<open>
  \<open>validatePassword(password, requireStrong)\<close>: the errors and suggestions are
  pushed in the order of the checks, and \<open>isValid\<close> is \<open>errors.length === 0\<close>.
\<close>

definition validatePassword :: "string \<Rightarrow> bool \<Rightarrow> PasswordValidationResult" where
  "validatePassword password requireStrong =
     (if password = [] then
        \<lparr>isValid = False, strength = WEAK,
         errors = [''La contrase'' @ [CHR 0xF1] @ ''a es requerida''],
         suggestions = [''Proporciona una contrase'' @ [CHR 0xF1] @ ''a v'' @ [CHR 0xE1] @ ''lida'']\<rparr>
      else
        (let hasUpperCase = list_ex isUpper password;
             hasLowerCase = list_ex isLower password;
             hasNumbers = list_ex isDigit password;
             hasSpecialChars = list_ex isSpecial password;
             common = list_ex (\<lambda>pattern. regexp_test (fst pattern) (snd pattern) password)
                        commonPatterns;
             errors =
               (if length password < minPasswordLength then
                  [''La contrase'' @ [CHR 0xF1] @ ''a debe tener al menos ''
                   @ showNat minPasswordLength @ '' caracteres'']
                else [])
               @ (if length password > maxPasswordLength then
                    [''La contrase'' @ [CHR 0xF1] @ ''a no puede tener m'' @ [CHR 0xE1] @ ''s de ''
                     @ showNat maxPasswordLength @ '' caracteres'']
                  else [])
               @ (if \<not> hasUpperCase then
                    [''La contrase'' @ [CHR 0xF1] @ ''a debe contener al menos una letra may''
                     @ [CHR 0xFA] @ ''scula'']
                  else [])
               @ (if \<not> hasLowerCase then
                    [''La contrase'' @ [CHR 0xF1] @ ''a debe contener al menos una letra min''
                     @ [CHR 0xFA] @ ''scula'']
                  else [])
               @ (if \<not> hasNumbers then
                    [''La contrase'' @ [CHR 0xF1] @ ''a debe contener al menos un n''
                     @ [CHR 0xFA] @ ''mero'']
                  else [])
               @ (if requireStrong \<and> \<not> hasSpecialChars then
                    [''La contrase'' @ [CHR 0xF1] @ ''a debe contener al menos un car''
                     @ [CHR 0xE1] @ ''cter especial'']
                  else [])
               @ (if common then
                    [''La contrase'' @ [CHR 0xF1] @ ''a contiene patrones comunes inseguros'']
                  else []);
             suggestions =
               (if \<not> hasUpperCase then [''Agrega al menos una letra may'' @ [CHR 0xFA] @ ''scula (A-Z)'']
                else [])
               @ (if \<not> hasLowerCase then
                    [''Agrega al menos una letra min'' @ [CHR 0xFA] @ ''scula (a-z)'']
                  else [])
               @ (if \<not> hasNumbers then [''Agrega al menos un n'' @ [CHR 0xFA] @ ''mero (0-9)'']
                  else [])
               @ (if requireStrong \<and> \<not> hasSpecialChars then
                    [''Agrega al menos un car'' @ [CHR 0xE1] @ ''cter especial (@$!%*?&)'']
                  else [])
               @ (if common then
                    [''Evita usar patrones comunes como '' @ [CHR 0x22] @ ''123456'' @ [CHR 0x22]
                     @ '', '' @ [CHR 0x22] @ ''password'' @ [CHR 0x22] @ '', etc.'']
                  else [])
         in \<lparr>isValid = (length errors = 0),
             strength = evaluatePasswordStrength password,
             errors = errors, suggestions = suggestions\<rparr>))"

text \<open>
  \<open>verifyPassword(password, hash)\<close> over \<open>bcrypt.compare\<close>: an empty argument and a
  rejected comparison both give \<open>false\<close>.
\<close>

definition verifyPassword ::
  "(string \<Rightarrow> string \<Rightarrow> bool promise) \<Rightarrow> string \<Rightarrow> string \<Rightarrow> bool" where
  "verifyPassword bcrypt_compare password hash =
     (if password = [] \<or> hash = [] then False
      else case bcrypt_compare password hash of
        Rejected \<Rightarrow> False
      | Resolved isMatch \<Rightarrow> isMatch)"

text \<open>
  The words of the specification for the deny list: a password contains a deny-listed
  word when some stretch of it equals the word up to the case of its letters.
\<close>

definition denyList :: "string list" where
  "denyList = [''123456'', ''password'', ''qwerty'', ''admin'', ''letmein'']"

definition containsIgnoringCase :: "string \<Rightarrow> string \<Rightarrow> bool" where
  "containsIgnoringCase word s \<longleftrightarrow>
     (\<exists>before stretch after. s = before @ stretch @ after
        \<and> map canonicalize stretch = map canonicalize word)"

subsection \<open>Authentication service\<close>

record LoginData =
  ld_email :: string
  ld_password :: string

record AuthResponseUser =
  ar_id :: string
  ar_email :: string
  ar_fullName :: string
  ar_institutionId :: "string option"
  ar_roleName :: string
  ar_isActive :: bool

record AuthResponse =
  ar_user :: AuthResponseUser
  ar_tokens :: TokenPair

text \<open>\<open>prisma.user.update({ where: { id }, data })\<close> for the two writes of the service.\<close>

definition user_update_lastLogin :: "database \<Rightarrow> string \<Rightarrow> int \<Rightarrow> database promise" where
  "user_update_lastLogin db userId now =
     query db (db\<lparr>users := map (\<lambda>u. if u_id u = userId then u\<lparr>u_lastLogin := Some now\<rparr> else u)
                              (users db)\<rparr>)"

definition user_update_attributes :: "database \<Rightarrow> string \<Rightarrow> json \<Rightarrow> database promise" where
  "user_update_attributes db userId attrs =
     query db (db\<lparr>users := map (\<lambda>u. if u_id u = userId then u\<lparr>u_attributes := Some attrs\<rparr> else u)
                              (users db)\<rparr>)"

definition invalidCredentials :: app_error where
  "invalidCredentials = AppError (''Credenciales inv'' @ [CHR 0xE1] @ ''lidas'') 401"

text \<open>
  \<open>loginUser(data)\<close>, with the comparison function of bcrypt, the token library and
  the time of the call. The result is the response or the thrown error, together with
  the database after the call. An error without a status code (a rejected query, a
  failed signature) is rethrown as the internal error with status 500.
\<close>

definition loginUser ::
  "(string \<Rightarrow> string \<Rightarrow> bool promise) \<Rightarrow> jsonwebtoken \<Rightarrow> int \<Rightarrow> LoginData \<Rightarrow> database
     \<Rightarrow> (app_error + AuthResponse) \<times> database" where
  "loginUser bcrypt_compare jwt now data db =
     (case user_findUnique_email db (ld_email data) of
        Rejected \<Rightarrow> (Inl (AppError ''Error interno durante el login'' 500), db)
      | Resolved None \<Rightarrow> (Inl invalidCredentials, db)
      | Resolved (Some u) \<Rightarrow>
         (if \<not> u_isActive (uw_user u) then (Inl (AppError ''Usuario inactivo'' 401), db)
          else if uw_institution u = None \<or> institution_status u \<noteq> Some ''active'' then
            (Inl (AppError (''Instituci'' @ [CHR 0xF3] @ ''n inactiva'') 403), db)
          else
           (case u_password (uw_user u) of
              None \<Rightarrow> (Inl invalidCredentials, db)
            | Some hash \<Rightarrow>
               (if hash = [] then (Inl invalidCredentials, db)
                else if \<not> verifyPassword bcrypt_compare (ld_password data) hash then
                  (Inl invalidCredentials, db)
                else
                 (case primaryRole (uw_userRoles u) of
                    None \<Rightarrow> (Inl (AppError ''Usuario sin roles asignados'' 403), db)
                  | Some role \<Rightarrow>
                     (case user_update_lastLogin db (u_id (uw_user u)) now of
                        Rejected \<Rightarrow> (Inl (AppError ''Error interno durante el login'' 500), db)
                      | Resolved db' \<Rightarrow>
                         (case generateTokenPair jwt
                                 \<lparr>jwt_userId = u_id (uw_user u),
                                  jwt_institutionId = u_institutionId (uw_user u),
                                  jwt_roleId = ur_roleId (fst role),
                                  jwt_roleName = ro_name (snd role),
                                  jwt_email = u_email (uw_user u)\<rparr> of
                            Inl e \<Rightarrow> (Inl (AppError ''Error interno durante el login'' 500), db')
                          | Inr tokens \<Rightarrow>
                              (Inr \<lparr>ar_user =
                                      \<lparr>ar_id = u_id (uw_user u),
                                       ar_email = u_email (uw_user u),
                                       ar_fullName = u_fullName (uw_user u),
                                       ar_institutionId = u_institutionId (uw_user u),
                                       ar_roleName = ro_name (snd role),
                                       ar_isActive = u_isActive (uw_user u)\<rparr>,
                                    ar_tokens = tokens\<rparr>, db'))))))))"

text \<open>
  \<open>refreshTokens(refreshToken)\<close>, the argument being \<open>presentedToken\<close>. The error \<open>verifyRefreshToken\<close> throws has no status
  code, so an invalid or expired refresh token surfaces as the internal error.
\<close>

definition refreshTokens :: "jsonwebtoken \<Rightarrow> string \<Rightarrow> database \<Rightarrow> app_error + TokenPair" where
  "refreshTokens jwt presentedToken db =
     (case verifyRefreshToken jwt presentedToken of
        Inl e \<Rightarrow> Inl (AppError ''Error refrescando tokens'' 500)
      | Inr decoded \<Rightarrow>
         (case user_findUnique_id db (rt_userId decoded) of
            Rejected \<Rightarrow> Inl (AppError ''Error refrescando tokens'' 500)
          | Resolved None \<Rightarrow> Inl (AppError (''Token de refresh inv'' @ [CHR 0xE1] @ ''lido'') 401)
          | Resolved (Some u) \<Rightarrow>
             (if \<not> u_isActive (uw_user u) \<or> institution_status u \<noteq> Some ''active'' then
                Inl (AppError (''Token de refresh inv'' @ [CHR 0xE1] @ ''lido'') 401)
              else
               (case primaryRole (uw_userRoles u) of
                  None \<Rightarrow> Inl (AppError ''Usuario sin roles asignados'' 403)
                | Some role \<Rightarrow>
                   (case generateTokenPair jwt
                           \<lparr>jwt_userId = u_id (uw_user u),
                            jwt_institutionId = u_institutionId (uw_user u),
                            jwt_roleId = ur_roleId (fst role),
                            jwt_roleName = ro_name (snd role),
                            jwt_email = u_email (uw_user u)\<rparr> of
                      Inl e \<Rightarrow> Inl (AppError ''Error refrescando tokens'' 500)
                    | Inr tokens \<Rightarrow> Inr tokens)))))"

text \<open>
  The words of the specification for the active role of a principal: the assignment
  marked primary, or the first assignment if none is marked primary.
\<close>

definition currentRole ::
  "(userRole_row \<times> role_row) list \<Rightarrow> (userRole_row \<times> role_row) option" where
  "currentRole assignments =
     (case filter (\<lambda>a. ur_isPrimary (fst a)) assignments of
        primary # _ \<Rightarrow> Some primary
      | [] \<Rightarrow> (case assignments of [] \<Rightarrow> None | first # _ \<Rightarrow> Some first))"

text \<open>
  \<open>requestPasswordReset(email)\<close>. The world is the database and the clock; awaiting
  \<open>setTimeout(resolve, 1000)\<close> moves the clock on by the delay. The user is read with
  \<open>select: { id, email, isActive }\<close>, so the row in hand has no \<open>attributes\<close> and the
  object spread starts from the empty object. \<open>generatedToken\<close> is the value of
  \<open>generatePasswordResetToken()\<close>, 32 random bytes in hexadecimal, and \<open>toISOString\<close>
  renders an instant as a string.
\<close>

record world =
  w_db :: database
  w_now :: int

record user_selected =
  us_id :: string
  us_email :: string
  us_isActive :: bool

record ResetResult =
  resetToken :: string
  expiresAt :: int

definition user_findUnique_email_selected ::
  "database \<Rightarrow> string \<Rightarrow> user_selected option promise" where
  "user_findUnique_email_selected db email =
     query db (map_option (\<lambda>u. \<lparr>us_id = u_id u, us_email = u_email u, us_isActive = u_isActive u\<rparr>)
                 (find (\<lambda>u. u_email u = email) (users db)))"

definition setTimeout :: "int \<Rightarrow> world \<Rightarrow> world" where
  "setTimeout ms w = w\<lparr>w_now := w_now w + ms\<rparr>"

definition dummyReset :: "world \<Rightarrow> (app_error + ResetResult) \<times> world" where
  "dummyReset w =
     (let w' = setTimeout 1000 w
      in (Inr \<lparr>resetToken = ''dummy-token'', expiresAt = w_now w' + 15 * 60 * 1000\<rparr>, w'))"

definition requestPasswordReset ::
  "string \<Rightarrow> (int \<Rightarrow> string) \<Rightarrow> string \<Rightarrow> world \<Rightarrow> (app_error + ResetResult) \<times> world" where
  "requestPasswordReset generatedToken toISOString email w =
     (case user_findUnique_email_selected (w_db w) email of
        Rejected \<Rightarrow> (Inl (AppError ''Error procesando solicitud de reset'' 500), w)
      | Resolved None \<Rightarrow> dummyReset w
      | Resolved (Some u) \<Rightarrow>
         (if \<not> us_isActive u then dummyReset w
          else
           (let resetToken = generatedToken;
                expiresAt = w_now w + 15 * 60 * 1000
            in case user_update_attributes (w_db w) (us_id u)
                      (JObject ([] @ [(''passwordResetToken'', JString resetToken),
                                      (''passwordResetExpires'', JString (toISOString expiresAt))])) of
                 Rejected \<Rightarrow> (Inl (AppError ''Error procesando solicitud de reset'' 500), w)
               | Resolved db' \<Rightarrow>
                   (Inr \<lparr>resetToken = resetToken, expiresAt = expiresAt\<rparr>, w\<lparr>w_db := db'\<rparr>))))"

subsection \<open>Example data\<close>

definition example_plan :: plan where
  "example_plan =
     \<lparr>plan_id = ''plan-basic'', slug = ''basic'', features = (\<lambda>name. False),
      studentLimit = 5, teacherLimit = 2, adminLimit = 1, courseLimit = 3,
      aiTeacherCallsMonthly = - 1, aiStudentMinutesMonthly = - 1, certificateMonthly = - 1,
      virtualClassroomLimit = 1, storageMB = 1024\<rparr>"

definition example_context :: "plan option \<Rightarrow> ABACContext" where
  "example_context p =
     \<lparr>ctx_user = \<lparr>cu_id = ''u1'', cu_roleId = ''r1'', cu_roleName = ''SECRETARY'',
                  cu_institutionId = Some ''inst-a''\<rparr>,
      ctx_institution = \<lparr>ci_id = ''inst-a'', ci_planId = map_option plan_id p,
                         ci_status = ''active''\<rparr>,
      ctx_plan = p\<rparr>"

definition example_request :: "plan option \<Rightarrow> request" where
  "example_request p =
     \<lparr>authorization = None, params = [], user = None, token = None,
      institutionId = Some ''inst-a'', abac = Some (example_context p)\<rparr>"

definition empty_database :: database where
  "empty_database =
     \<lparr>online = True, users = [], roles = [], userRoles = [], institutions = [],
      students = [], teachers = [], careers = [], courses = [], subjects = [],
      virtualClassrooms = [], certificates = []\<rparr>"

definition example_student :: "string \<Rightarrow> student_row" where
  "example_student n = \<lparr>st_id = ''s'' @ n, st_userId = ''u'' @ n, st_institutionId = ''inst-a''\<rparr>"

definition four_students :: database where
  "four_students = empty_database
     \<lparr>students := map example_student [''1'', ''2'', ''3'', ''4'']\<rparr>"

definition five_students :: database where
  "five_students = empty_database
     \<lparr>students := map example_student [''1'', ''2'', ''3'', ''4'', ''5'']\<rparr>"

definition example_auth_user :: auth_user where
  "example_auth_user =
     \<lparr>au_id = ''u9'', au_email = ''secretary@a.edu'', au_institutionId = Some ''inst-a'',
      au_roleId = ''r1'', au_roleName = ''SECRETARY'', au_isActive = True,
      au_attributes = None\<rparr>"

definition tenant_request :: "string \<Rightarrow> request" where
  "tenant_request resourceId =
     \<lparr>authorization = None, params = [(''id'', resourceId)], user = Some example_auth_user,
      token = None, institutionId = Some ''inst-a'', abac = None\<rparr>"

definition example_user :: "string \<Rightarrow> string \<Rightarrow> user_row" where
  "example_user n email =
     \<lparr>u_id = ''u'' @ n, u_institutionId = Some ''inst-a'', u_email = email,
      u_password = Some ''$2a$12$hash'', u_fullName = ''User '' @ n, u_isActive = True,
      u_attributes = None, u_lastLogin = None\<rparr>"

definition teacher_database :: database where
  "teacher_database = empty_database
     \<lparr>users := [example_user ''1'' ''teacher@a.edu''],
      institutions := [\<lparr>in_id = ''inst-a'', in_name = ''A'', in_status = Some ''active''\<rparr>],
      teachers := [\<lparr>te_id = ''t1'', te_userId = ''u1''\<rparr>]\<rparr>"

definition bearer_request :: "string \<Rightarrow> request" where
  "bearer_request tok =
     \<lparr>authorization = Some (''Bearer '' @ tok), params = [], user = None, token = None,
      institutionId = None, abac = None\<rparr>"

definition example_jwt :: jsonwebtoken where
  "example_jwt =
     \<lparr>verify_access = (\<lambda>tok.
        if tok = ''access-u1'' then
          Inr \<lparr>jwt_userId = ''u1'', jwt_institutionId = Some ''inst-a'', jwt_roleId = ''r-teacher'',
               jwt_roleName = ''TEACHER'', jwt_email = ''teacher@a.edu''\<rparr>
        else if tok = ''expired'' then Inl TokenExpiredError
        else Inl JsonWebTokenError),
      verify_refresh = (\<lambda>tok.
        if tok = ''refresh-u1'' then
          Inr \<lparr>rt_userId = ''u1'', rt_institutionId = Some ''inst-a''\<rparr>
        else if tok = ''refresh-u2'' then
          Inr \<lparr>rt_userId = ''u2'', rt_institutionId = Some ''inst-a''\<rparr>
        else Inl JsonWebTokenError),
      sign_access = (\<lambda>p. Some (''access:'' @ jwt_userId p @ '':'' @ jwt_roleName p)),
      sign_refresh = (\<lambda>p. Some (''refresh:'' @ rt_userId p)),
      JWT_EXPIRES_IN = ''24h''\<rparr>"

text \<open>
  A database for the service: an active teacher with a password, an active user
  without a password and without a role, an inactive user without a password, and an
  active user of a suspended institution.
\<close>

definition service_database :: database where
  "service_database = empty_database
     \<lparr>users :=
        [example_user ''1'' ''teacher@a.edu'',
         (example_user ''2'' ''nopass@a.edu'')\<lparr>u_password := None\<rparr>,
         (example_user ''3'' ''dormant@a.edu'')\<lparr>u_password := None, u_isActive := False\<rparr>,
         (example_user ''4'' ''closed@b.edu'')\<lparr>u_institutionId := Some ''inst-b''\<rparr>],
      roles := [\<lparr>ro_id = ''r-teacher'', ro_name = ''TEACHER''\<rparr>,
                \<lparr>ro_id = ''r-director'', ro_name = ''DIRECTOR''\<rparr>],
      userRoles := [\<lparr>ur_userId = ''u1'', ur_roleId = ''r-teacher'', ur_isPrimary = True\<rparr>],
      institutions :=
        [\<lparr>in_id = ''inst-a'', in_name = ''A'', in_status = Some ''active''\<rparr>,
         \<lparr>in_id = ''inst-b'', in_name = ''B'', in_status = Some ''suspended''\<rparr>]\<rparr>"

text \<open>The same database after the teacher's primary role was changed to director.\<close>

definition promoted_database :: database where
  "promoted_database = service_database
     \<lparr>userRoles := [\<lparr>ur_userId = ''u1'', ur_roleId = ''r-teacher'', ur_isPrimary = False\<rparr>,
                    \<lparr>ur_userId = ''u1'', ur_roleId = ''r-director'', ur_isPrimary = True\<rparr>]\<rparr>"

definition example_bcrypt :: "string \<Rightarrow> string \<Rightarrow> bool promise" where
  "example_bcrypt password hash =
     Resolved (password = ''Secret123!'' \<and> hash = ''$2a$12$hash'')"

definition example_toISOString :: "int \<Rightarrow> string" where
  "example_toISOString t = ''t'' @ showInt t"

section \<open>Properties\<close>

subsection \<open>Plan limits\<close>

lemma quotaKinds_cases:
  assumes "kind \<in> quotaKinds"
  shows "kind = ''student'' \<or> kind = ''teacher'' \<or> kind = ''course''
    \<or> kind = ''virtualClassroom'' \<or> kind = ''certificate''"
  using assms by (simp add: quotaKinds_def)

lemma checkPlanLimits_selected:
  assumes "abac req = Some ctx" and "ctx_plan ctx = Some p" and "kind \<in> quotaKinds"
  shows "checkPlanLimits kind ''create'' db som req =
     (case currentCount kind db som (ci_id (ctx_institution ctx)) of
        Rejected \<Rightarrow> Respond 400 (''Error verificando l'' @ [CHR 0xED] @ ''mites del plan'')
      | Resolved c \<Rightarrow>
          if matchingLimit kind p \<noteq> - 1 \<and> matchingLimit kind p \<le> int c then
            Respond 403 (''L'' @ [CHR 0xED] @ ''mite del plan excedido para '' @ kind
                         @ '' ('' @ showNat c @ ''/'' @ showInt (matchingLimit kind p) @ '')'')
          else Next req)"
  using quotaKinds_cases [OF assms(3)]
proof (elim disjE)
  assume "kind = ''student''"
  with assms(1,2) show ?thesis
    by (simp add: checkPlanLimits_def currentCount_def matchingLimit_def
        forbiddenResponse_def badRequestResponse_def split: promise.split)
next
  assume "kind = ''teacher''"
  with assms(1,2) show ?thesis
    by (simp add: checkPlanLimits_def currentCount_def matchingLimit_def
        forbiddenResponse_def badRequestResponse_def split: promise.split)
next
  assume "kind = ''course''"
  with assms(1,2) show ?thesis
    by (simp add: checkPlanLimits_def currentCount_def matchingLimit_def
        forbiddenResponse_def badRequestResponse_def split: promise.split)
next
  assume "kind = ''virtualClassroom''"
  with assms(1,2) show ?thesis
    by (simp add: checkPlanLimits_def currentCount_def matchingLimit_def
        forbiddenResponse_def badRequestResponse_def split: promise.split)
next
  assume "kind = ''certificate''"
  with assms(1,2) show ?thesis
    by (simp add: checkPlanLimits_def currentCount_def matchingLimit_def
        forbiddenResponse_def badRequestResponse_def split: promise.split)
qed

text \<open>
  Claim C1. For a create request whose ABAC context has a plan and whose resource kind is
  quota-gated, the middleware answers 403 exactly when the count query returns a count
  \<open>c\<close>, the matching limit is not \<open>-1\<close> and \<open>c\<close> has reached the limit; it calls
  \<open>next()\<close> exactly when the count query returns and either the limit is \<open>-1\<close> or the
  count is below the limit. In particular a limit of \<open>-1\<close> lets every count through.
\<close>

theorem checkPlanLimits_quota_boundary:
  assumes "abac req = Some ctx" and "ctx_plan ctx = Some p" and "kind \<in> quotaKinds"
  shows "((\<exists>msg. checkPlanLimits kind ''create'' db som req = Respond 403 msg)
            \<longleftrightarrow> (\<exists>c. currentCount kind db som (ci_id (ctx_institution ctx)) = Resolved c
                     \<and> matchingLimit kind p \<noteq> - 1 \<and> matchingLimit kind p \<le> int c))
       \<and> (checkPlanLimits kind ''create'' db som req = Next req
            \<longleftrightarrow> (\<exists>c. currentCount kind db som (ci_id (ctx_institution ctx)) = Resolved c
                     \<and> (matchingLimit kind p = - 1 \<or> int c < matchingLimit kind p)))"
proof (cases "currentCount kind db som (ci_id (ctx_institution ctx))")
  case Rejected
  then show ?thesis
    by (simp add: checkPlanLimits_selected [OF assms])
next
  case (Resolved c)
  then show ?thesis
    by (auto simp: checkPlanLimits_selected [OF assms])
qed

theorem checkPlanLimits_quota_boundary_witness:
  "(\<exists>msg. checkPlanLimits ''student'' ''create'' five_students 0
            (example_request (Some example_plan)) = Respond 403 msg)
   \<and> checkPlanLimits ''student'' ''create'' four_students 0
        (example_request (Some example_plan)) = Next (example_request (Some example_plan))
   \<and> checkPlanLimits ''student'' ''create'' five_students 0
        (example_request (Some (example_plan\<lparr>studentLimit := - 1\<rparr>)))
      = Next (example_request (Some (example_plan\<lparr>studentLimit := - 1\<rparr>)))"
proof -
  have kind: "''student'' \<in> quotaKinds"
    by (simp add: quotaKinds_def)
  have ctx: "abac (example_request q) = Some (example_context q)"
    and pl: "ctx_plan (example_context q) = q" for q
    by (simp_all add: example_request_def example_context_def)
  have inst: "ci_id (ctx_institution (example_context q)) = ''inst-a''" for q
    by (simp add: example_context_def)
  have five: "currentCount ''student'' five_students 0 ''inst-a'' = Resolved 5"
    by (simp add: currentCount_def student_count_def query_def five_students_def
        empty_database_def example_student_def)
  have four: "currentCount ''student'' four_students 0 ''inst-a'' = Resolved 4"
    by (simp add: currentCount_def student_count_def query_def four_students_def
        empty_database_def example_student_def)
  have lim: "matchingLimit ''student'' example_plan = 5"
    and unl: "matchingLimit ''student'' (example_plan\<lparr>studentLimit := - 1\<rparr>) = - 1"
    by (simp_all add: matchingLimit_def example_plan_def)
  have a: "\<exists>msg. checkPlanLimits ''student'' ''create'' five_students 0
            (example_request (Some example_plan)) = Respond 403 msg"
    using checkPlanLimits_quota_boundary [OF ctx pl kind, where p = example_plan and db = five_students and som = 0]
    by (simp add: inst five lim)
  have b: "checkPlanLimits ''student'' ''create'' four_students 0
        (example_request (Some example_plan)) = Next (example_request (Some example_plan))"
    using checkPlanLimits_quota_boundary [OF ctx pl kind, where p = example_plan and db = four_students and som = 0]
    by (simp add: inst four lim)
  have c: "checkPlanLimits ''student'' ''create'' five_students 0
        (example_request (Some (example_plan\<lparr>studentLimit := - 1\<rparr>)))
      = Next (example_request (Some (example_plan\<lparr>studentLimit := - 1\<rparr>)))"
    using checkPlanLimits_quota_boundary
      [OF ctx pl kind, where p = "example_plan\<lparr>studentLimit := - 1\<rparr>"
        and db = five_students and som = 0]
    by (simp add: inst five unl)
  from a b c show ?thesis by blast
qed

text \<open>
  Claim C5, as amended. A request whose action is not \<open>create\<close> is always handed on,
  whatever the plan and the counts. A create request for a resource kind that is not
  quota-gated is handed on when the ABAC context has a plan. (Without a plan every
  create request is answered with 403 before the resource kind is looked at, as the
  counterexample below shows.)
\<close>

theorem checkPlanLimits_ungated:
  "(action \<noteq> ''create'' \<longrightarrow> checkPlanLimits kind action db som req = Next req)
   \<and> (kind \<notin> quotaKinds \<and> abac req = Some ctx \<and> ctx_plan ctx = Some p
        \<longrightarrow> checkPlanLimits kind ''create'' db som req = Next req)"
proof -
  have read: "checkPlanLimits kind action db som req = Next req" if "action \<noteq> ''create''"
    using that by (simp add: checkPlanLimits_def)
  have other: "checkPlanLimits kind ''create'' db som req = Next req"
    if "kind \<notin> quotaKinds" and "abac req = Some ctx" and "ctx_plan ctx = Some p"
  proof -
    from that(1) have "kind \<noteq> ''student''" "kind \<noteq> ''teacher''" "kind \<noteq> ''course''"
      "kind \<noteq> ''virtualClassroom''" "kind \<noteq> ''certificate''"
      by (simp_all add: quotaKinds_def)
    with that(2,3) show ?thesis
      by (simp add: checkPlanLimits_def)
  qed
  from read other show ?thesis by blast
qed

theorem checkPlanLimits_ungated_witness:
  "checkPlanLimits ''student'' ''update'' five_students 0 (example_request (Some example_plan))
     = Next (example_request (Some example_plan))
   \<and> checkPlanLimits ''grade'' ''create'' five_students 0 (example_request (Some example_plan))
     = Next (example_request (Some example_plan))"
proof -
  have u: "''update'' \<noteq> ''create''"
    by simp
  have g: "''grade'' \<notin> quotaKinds"
    by (simp add: quotaKinds_def)
  have ctx: "abac (example_request (Some example_plan)) = Some (example_context (Some example_plan))"
    by (simp add: example_request_def)
  have pl: "ctx_plan (example_context (Some example_plan)) = Some example_plan"
    by (simp add: example_context_def)
  have a: "checkPlanLimits ''student'' ''update'' five_students 0
      (example_request (Some example_plan)) = Next (example_request (Some example_plan))"
    using checkPlanLimits_ungated [where action = "''update''" and kind = "''student''"
        and db = five_students and som = 0 and req = "example_request (Some example_plan)"] u
    by blast
  have b: "checkPlanLimits ''grade'' ''create'' five_students 0
      (example_request (Some example_plan)) = Next (example_request (Some example_plan))"
    using checkPlanLimits_ungated [where kind = "''grade''" and db = five_students and som = 0
        and req = "example_request (Some example_plan)"
        and ctx = "example_context (Some example_plan)" and p = example_plan] g ctx pl
    by blast
  from a b show ?thesis by blast
qed

text \<open>
  The claim as it was stated fails for a tenant without a plan: the kind \<open>grade\<close> is not
  quota-gated, and the create request is answered with 403.
\<close>

theorem checkPlanLimits_ungated_counterexample:
  "''grade'' \<notin> quotaKinds
   \<and> checkPlanLimits ''grade'' ''create'' empty_database 0 (example_request None)
       = Respond 403 (''Plan requerido para esta operaci'' @ [CHR 0xF3] @ ''n'')"
  by (simp add: quotaKinds_def checkPlanLimits_def example_request_def example_context_def
      forbiddenResponse_def)

subsection \<open>Plan features\<close>

text \<open>
  Claim C10. With a plan in the ABAC context, the feature gate answers 403 for
  \<open>certificates\<close> when \<open>certificateMonthly\<close> is \<open>-1\<close>, with the same response as for
  \<open>0\<close>, and likewise for \<open>ai_teacher\<close> with \<open>aiTeacherCallsMonthly\<close> and for
  \<open>ai_student\<close> with \<open>aiStudentMinutesMonthly\<close>; the quota check of the same plan
  treats \<open>certificateMonthly = -1\<close> as unlimited and hands a certificate creation on
  whenever its count query returns.
\<close>

theorem checkPlanFeature_unlimited_sentinel_denied:
  assumes "abac req = Some ctx" and "ctx_plan ctx = Some p"
  shows "(certificateMonthly p = - 1 \<or> certificateMonthly p = 0
            \<longrightarrow> checkPlanFeature ''certificates'' req
                = Respond 403 (''Generaci'' @ [CHR 0xF3]
                               @ ''n de certificados no disponible en su plan''))
       \<and> (aiTeacherCallsMonthly p = - 1 \<or> aiTeacherCallsMonthly p = 0
            \<longrightarrow> checkPlanFeature ''ai_teacher'' req
                = Respond 403 ''Funcionalidad de IA para docentes no disponible en su plan'')
       \<and> (aiStudentMinutesMonthly p = - 1 \<or> aiStudentMinutesMonthly p = 0
            \<longrightarrow> checkPlanFeature ''ai_student'' req
                = Respond 403 ''Funcionalidad de IA para estudiantes no disponible en su plan'')
       \<and> (certificateMonthly p = - 1 \<and> online db
            \<longrightarrow> checkPlanLimits ''certificate'' ''create'' db som req = Next req)"
proof -
  have cert: "checkPlanFeature ''certificates'' req
      = Respond 403 (''Generaci'' @ [CHR 0xF3] @ ''n de certificados no disponible en su plan'')"
    if "certificateMonthly p \<le> 0"
    using that assms by (simp add: checkPlanFeature_def forbiddenResponse_def)
  have teacher: "checkPlanFeature ''ai_teacher'' req
      = Respond 403 ''Funcionalidad de IA para docentes no disponible en su plan''"
    if "aiTeacherCallsMonthly p \<le> 0"
    using that assms by (simp add: checkPlanFeature_def forbiddenResponse_def)
  have student: "checkPlanFeature ''ai_student'' req
      = Respond 403 ''Funcionalidad de IA para estudiantes no disponible en su plan''"
    if "aiStudentMinutesMonthly p \<le> 0"
    using that assms by (simp add: checkPlanFeature_def forbiddenResponse_def)
  have quota: "checkPlanLimits ''certificate'' ''create'' db som req = Next req"
    if "certificateMonthly p = - 1" and "online db"
    using that assms
    by (simp add: checkPlanLimits_def certificate_count_def query_def)
  have le: "x \<le> 0" if "x = - 1 \<or> x = 0" for x :: int
    using that by arith
  from cert teacher student quota le show ?thesis by blast
qed

theorem checkPlanFeature_unlimited_sentinel_denied_witness:
  "checkPlanFeature ''certificates'' (example_request (Some example_plan))
     = Respond 403 (''Generaci'' @ [CHR 0xF3] @ ''n de certificados no disponible en su plan'')
   \<and> checkPlanFeature ''ai_teacher'' (example_request (Some example_plan))
     = Respond 403 ''Funcionalidad de IA para docentes no disponible en su plan''
   \<and> checkPlanFeature ''ai_student'' (example_request (Some example_plan))
     = Respond 403 ''Funcionalidad de IA para estudiantes no disponible en su plan''
   \<and> checkPlanLimits ''certificate'' ''create'' empty_database 0
        (example_request (Some example_plan)) = Next (example_request (Some example_plan))"
proof -
  have ctx: "abac (example_request (Some example_plan)) = Some (example_context (Some example_plan))"
    by (simp add: example_request_def)
  have pl: "ctx_plan (example_context (Some example_plan)) = Some example_plan"
    by (simp add: example_context_def)
  have vals: "certificateMonthly example_plan = - 1" "aiTeacherCallsMonthly example_plan = - 1"
    "aiStudentMinutesMonthly example_plan = - 1" "online empty_database"
    by (simp_all add: example_plan_def empty_database_def)
  from checkPlanFeature_unlimited_sentinel_denied
    [OF ctx pl, where db = empty_database and som = 0] vals
  show ?thesis by blast
qed

subsection \<open>Bearer extraction\<close>

lemma js_split_nonempty: "js_split sep s \<noteq> []"
  by (induction s) (simp_all split: list.split)

lemma js_split_single: "js_split sep s = [a] \<longleftrightarrow> s = a \<and> sep \<notin> set a"
proof (induction s arbitrary: a)
  case Nil
  show ?case by auto
next
  case (Cons c cs)
  show ?case
  proof (cases "c = sep")
    case True
    have "js_split sep (c # cs) = [] # js_split sep cs" using True by simp
    then show ?thesis using True js_split_nonempty [of sep cs] by auto
  next
    case False
    obtain p ps where ps: "js_split sep cs = p # ps"
      using js_split_nonempty [of sep cs] by (cases "js_split sep cs") auto
    have eq: "js_split sep (c # cs) = (c # p) # ps" using False ps by simp
    have ih: "(p # ps = [p]) \<longleftrightarrow> cs = p \<and> sep \<notin> set p"
      using Cons.IH [of p] ps by simp
    show ?thesis
    proof
      assume "js_split sep (c # cs) = [a]"
      then have "a = c # p" "ps = []" using eq by auto
      then show "c # cs = a \<and> sep \<notin> set a" using ih False by auto
    next
      assume r: "c # cs = a \<and> sep \<notin> set a"
      then have "sep \<notin> set cs" by auto
      then have "js_split sep cs = [cs]" using Cons.IH [of cs] by simp
      then show "js_split sep (c # cs) = [a]" using False r by auto
    qed
  qed
qed

lemma js_split_pair:
  "js_split sep s = [a, b] \<longleftrightarrow> s = a @ sep # b \<and> sep \<notin> set a \<and> sep \<notin> set b"
proof (induction s arbitrary: a)
  case Nil
  show ?case by simp
next
  case (Cons c cs)
  show ?case
  proof (cases "c = sep")
    case True
    have eq: "js_split sep (c # cs) = [] # js_split sep cs" using True by simp
    show ?thesis
    proof
      assume "js_split sep (c # cs) = [a, b]"
      then have "a = []" "js_split sep cs = [b]" using eq by auto
      then show "c # cs = a @ sep # b \<and> sep \<notin> set a \<and> sep \<notin> set b"
        using True js_split_single [of sep cs b] by simp
    next
      assume r: "c # cs = a @ sep # b \<and> sep \<notin> set a \<and> sep \<notin> set b"
      then have "a = []" using True by (cases a) auto
      then have "cs = b" "sep \<notin> set b" using r by auto
      then have "js_split sep cs = [b]" using js_split_single [of sep cs b] by simp
      then show "js_split sep (c # cs) = [a, b]" using eq \<open>a = []\<close> by simp
    qed
  next
    case False
    obtain p ps where ps: "js_split sep cs = p # ps"
      using js_split_nonempty [of sep cs] by (cases "js_split sep cs") auto
    have eq: "js_split sep (c # cs) = (c # p) # ps" using False ps by simp
    show ?thesis
    proof
      assume "js_split sep (c # cs) = [a, b]"
      then have a: "a = c # p" and "ps = [b]" using eq by auto
      then have "js_split sep cs = [p, b]" using ps by simp
      then have "cs = p @ sep # b \<and> sep \<notin> set p \<and> sep \<notin> set b"
        using Cons.IH [of p] by simp
      then show "c # cs = a @ sep # b \<and> sep \<notin> set a \<and> sep \<notin> set b"
        using a False by auto
    next
      assume r: "c # cs = a @ sep # b \<and> sep \<notin> set a \<and> sep \<notin> set b"
      then obtain a' where a: "a = c # a'" using False by (cases a) auto
      then have "cs = a' @ sep # b \<and> sep \<notin> set a' \<and> sep \<notin> set b" using r by auto
      then have "js_split sep cs = [a', b]" using Cons.IH [of a'] by simp
      then show "js_split sep (c # cs) = [a, b]" using False a by simp
    qed
  qed
qed

lemma extractTokenFromHeader_Some_iff:
  "extractTokenFromHeader h = Some t
      \<longleftrightarrow> h = Some (''Bearer '' @ t) \<and> CHR '' '' \<notin> set t"
proof (cases h)
  case None
  then show ?thesis by (simp add: extractTokenFromHeader_def)
next
  case (Some s)
  have pair: "js_split CHR '' '' s = [''Bearer'', t]
      \<longleftrightarrow> s = ''Bearer '' @ t \<and> CHR '' '' \<notin> set t"
    using js_split_pair [of "CHR '' ''" s "''Bearer''" t] by simp
  have shape: "extractTokenFromHeader (Some s) = Some t
      \<longleftrightarrow> js_split CHR '' '' s = [''Bearer'', t]"
  proof (cases "js_split CHR '' '' s")
    case Nil
    then show ?thesis using js_split_nonempty [of "CHR '' ''" s] by simp
  next
    case (Cons p ps)
    note outer = Cons
    have ne: "s \<noteq> []" if "ps \<noteq> []"
      using that outer by (cases s) auto
    show ?thesis
    proof (cases ps)
      case Nil
      then show ?thesis using outer
        by (simp add: extractTokenFromHeader_def Let_def)
    next
      case (Cons q qs)
      then have "s \<noteq> []" using ne by simp
      then show ?thesis using outer Cons
        by (cases qs) (simp_all add: extractTokenFromHeader_def Let_def)
    qed
  qed
  from Some pair shape show ?thesis by simp
qed

text \<open>
  Claim C8. Bearer extraction returns the token \<open>t\<close> exactly when the header is the
  scheme \<open>Bearer\<close> in that casing, one space, and a token without a space (so that the
  header has exactly two space-separated parts); a missing header gives \<open>null\<close>, and so
  does every header of another shape. The function is total: it has no error result.
\<close>

theorem extractTokenFromHeader_bearer:
  "(extractTokenFromHeader h = Some t
      \<longleftrightarrow> h = Some (''Bearer '' @ t) \<and> CHR '' '' \<notin> set t)
   \<and> extractTokenFromHeader None = None
   \<and> ((\<nexists>t'. h = Some (''Bearer '' @ t') \<and> CHR '' '' \<notin> set t')
        \<longrightarrow> extractTokenFromHeader h = None)"
proof -
  have none: "extractTokenFromHeader None = None"
    by (simp add: extractTokenFromHeader_def)
  have other: "extractTokenFromHeader h = None"
    if "\<nexists>t'. h = Some (''Bearer '' @ t') \<and> CHR '' '' \<notin> set t'"
  proof (cases "extractTokenFromHeader h")
    case None
    then show ?thesis .
  next
    case (Some u)
    then have "h = Some (''Bearer '' @ u) \<and> CHR '' '' \<notin> set u"
      using extractTokenFromHeader_Some_iff [of h u] by blast
    with that show ?thesis by blast
  qed
  from extractTokenFromHeader_Some_iff [of h t] none other show ?thesis by blast
qed

theorem extractTokenFromHeader_bearer_witness:
  "extractTokenFromHeader (Some ''Bearer abc.def'') = Some ''abc.def''
   \<and> extractTokenFromHeader (Some ''bearer abc.def'') = None"
proof -
  have a: "extractTokenFromHeader (Some ''Bearer abc.def'') = Some ''abc.def''"
    using extractTokenFromHeader_bearer [of "Some ''Bearer abc.def''" "''abc.def''"]
    by simp
  have "\<nexists>t'. Some ''bearer abc.def'' = Some (''Bearer '' @ t') \<and> CHR '' '' \<notin> set t'"
    by simp
  then have b: "extractTokenFromHeader (Some ''bearer abc.def'') = None"
    using extractTokenFromHeader_bearer [of "Some ''bearer abc.def''" "[]"]
    by blast
  from a b show ?thesis by simp
qed

subsection \<open>Resource ownership\<close>

text \<open>
  For the two models that have an \<open>institutionId\<close> column the middleware does what the
  tenant-isolation rule asks: 400 for a missing row, 403 for a row of another
  institution, and \<open>next()\<close> for a row of the principal's institution.
\<close>

lemma validateResourceOwnership_student:
  assumes "user req = Some caller" and "institutionId req = Some inst" and "inst \<noteq> []"
    and "map_of (params req) idParam = Some rid" and "rid \<noteq> []" and "online db"
  shows "validateResourceOwnership ''student'' idParam db req =
     (case find (\<lambda>s. st_id s = rid) (students db) of
        None \<Rightarrow> Respond 400 ''Recurso no encontrado''
      | Some s \<Rightarrow>
          if st_institutionId s \<noteq> inst then Respond 403 ''Acceso denegado a este recurso''
          else Next req)"
  using assms
  by (simp add: validateResourceOwnership_def falsy_def modelMap_def
      findUnique_id_institutionId_def scalarFields_def query_def
      badRequestResponse_def forbiddenResponse_def split: option.split)

lemma validateResourceOwnership_career:
  assumes "user req = Some caller" and "institutionId req = Some inst" and "inst \<noteq> []"
    and "map_of (params req) idParam = Some rid" and "rid \<noteq> []" and "online db"
  shows "validateResourceOwnership ''career'' idParam db req =
     (case find (\<lambda>k. ca_id k = rid) (careers db) of
        None \<Rightarrow> Respond 400 ''Recurso no encontrado''
      | Some k \<Rightarrow>
          if ca_institutionId k \<noteq> inst then Respond 403 ''Acceso denegado a este recurso''
          else Next req)"
  using assms
  by (simp add: validateResourceOwnership_def falsy_def modelMap_def
      findUnique_id_institutionId_def scalarFields_def query_def
      badRequestResponse_def forbiddenResponse_def split: option.split)

text \<open>
  The other four models of \<open>modelMap\<close> have no \<open>institutionId\<close> column, the query is
  rejected, and the \<open>catch\<close> block answers 403 whatever the database holds.
\<close>

lemma validateResourceOwnership_no_institution_column:
  assumes "user req = Some caller" and "institutionId req = Some inst" and "inst \<noteq> []"
    and "map_of (params req) idParam = Some rid" and "rid \<noteq> []"
    and "kind = ''teacher'' \<or> kind = ''course'' \<or> kind = ''virtualClassroom''
         \<or> kind = ''subject''"
  shows "validateResourceOwnership kind idParam db req
           = Respond 403 ''Error validando propiedad del recurso''"
  using assms(6)
proof (elim disjE)
  assume "kind = ''teacher''"
  with assms(1-5) show ?thesis
    by (simp add: validateResourceOwnership_def falsy_def modelMap_def
        findUnique_id_institutionId_def scalarFields_def forbiddenResponse_def)
next
  assume "kind = ''course''"
  with assms(1-5) show ?thesis
    by (simp add: validateResourceOwnership_def falsy_def modelMap_def
        findUnique_id_institutionId_def scalarFields_def forbiddenResponse_def)
next
  assume "kind = ''virtualClassroom''"
  with assms(1-5) show ?thesis
    by (simp add: validateResourceOwnership_def falsy_def modelMap_def
        findUnique_id_institutionId_def scalarFields_def forbiddenResponse_def)
next
  assume "kind = ''subject''"
  with assms(1-5) show ?thesis
    by (simp add: validateResourceOwnership_def falsy_def modelMap_def
        findUnique_id_institutionId_def scalarFields_def forbiddenResponse_def)
qed

text \<open>
  Claim C2 at a failing input. The teacher \<open>t1\<close> is the profile of user \<open>u1\<close> of
  institution \<open>inst-a\<close>, and the principal belongs to \<open>inst-a\<close>: the institutions are
  equal, and the request is answered with 403 instead of being handed on.
\<close>

theorem validateResourceOwnership_teacher_of_own_institution:
  "institutionId (tenant_request ''t1'') = Some ''inst-a''
   \<and> user_of_institution teacher_database ''inst-a'' ''u1''
   \<and> validateResourceOwnership ''teacher'' ''id'' teacher_database (tenant_request ''t1'')
       = Respond 403 ''Error validando propiedad del recurso''"
  by (simp add: tenant_request_def teacher_database_def empty_database_def example_user_def
      user_of_institution_def validateResourceOwnership_def falsy_def modelMap_def
      findUnique_id_institutionId_def scalarFields_def forbiddenResponse_def)

subsection \<open>Optional authentication\<close>

text \<open>
  Without a token the optional variant hands the request on unchanged; with a token it
  is \<open>authenticate\<close>, answers included.
\<close>

lemma optionalAuthenticate_without_token:
  assumes "falsy (extractTokenFromHeader (authorization req))"
  shows "optionalAuthenticate jwt db req = Next req"
  using assms by (simp add: optionalAuthenticate_def falsy_def split: option.splits)

lemma optionalAuthenticate_with_token:
  assumes "\<not> falsy (extractTokenFromHeader (authorization req))"
  shows "optionalAuthenticate jwt db req = authenticate jwt db req"
  using assms by (simp add: optionalAuthenticate_def falsy_def split: option.splits)

lemma authenticate_invalid_token:
  assumes "extractTokenFromHeader (authorization req) = Some tok" and "tok \<noteq> []"
    and "verifyAccessToken jwt tok = Inl reason"
  shows "authenticate jwt db req = Respond 401 reason"
  using assms by (simp add: authenticate_def unauthorizedResponse_def)

text \<open>
  Claim C3 at a failing input. A request carrying a bearer token whose signature does
  not verify is answered with 401 by the optional variant; it is not handed on
  unauthenticated.
\<close>

theorem optionalAuthenticate_invalid_token_answered:
  "optionalAuthenticate example_jwt empty_database (bearer_request ''tampered'')
     = Respond 401 (''Token inv'' @ [CHR 0xE1] @ ''lido'')"
proof -
  have tok: "extractTokenFromHeader (authorization (bearer_request ''tampered''))
      = Some ''tampered''"
    by (simp add: extractTokenFromHeader_Some_iff bearer_request_def)
  have bad: "verifyAccessToken example_jwt ''tampered'' = Inl (''Token inv'' @ [CHR 0xE1] @ ''lido'')"
    by (simp add: verifyAccessToken_def example_jwt_def)
  have "\<not> falsy (extractTokenFromHeader (authorization (bearer_request ''tampered'')))"
    by (simp add: tok falsy_def)
  then have "optionalAuthenticate example_jwt empty_database (bearer_request ''tampered'')
      = authenticate example_jwt empty_database (bearer_request ''tampered'')"
    by (rule optionalAuthenticate_with_token)
  also have "\<dots> = Respond 401 (''Token inv'' @ [CHR 0xE1] @ ''lido'')"
    using tok bad by (simp add: authenticate_invalid_token)
  finally show ?thesis .
qed

subsection \<open>Password validation\<close>

lemma canonicalize_table:
  "canonicalize c =
     (if c = CHR ''a'' then CHR ''A'' else if c = CHR ''b'' then CHR ''B''
      else if c = CHR ''c'' then CHR ''C'' else if c = CHR ''d'' then CHR ''D''
      else if c = CHR ''e'' then CHR ''E'' else if c = CHR ''f'' then CHR ''F''
      else if c = CHR ''g'' then CHR ''G'' else if c = CHR ''h'' then CHR ''H''
      else if c = CHR ''i'' then CHR ''I'' else if c = CHR ''j'' then CHR ''J''
      else if c = CHR ''k'' then CHR ''K'' else if c = CHR ''l'' then CHR ''L''
      else if c = CHR ''m'' then CHR ''M'' else if c = CHR ''n'' then CHR ''N''
      else if c = CHR ''o'' then CHR ''O'' else if c = CHR ''p'' then CHR ''P''
      else if c = CHR ''q'' then CHR ''Q'' else if c = CHR ''r'' then CHR ''R''
      else if c = CHR ''s'' then CHR ''S'' else if c = CHR ''t'' then CHR ''T''
      else if c = CHR ''u'' then CHR ''U'' else if c = CHR ''v'' then CHR ''V''
      else if c = CHR ''w'' then CHR ''W'' else if c = CHR ''x'' then CHR ''X''
      else if c = CHR ''y'' then CHR ''Y'' else if c = CHR ''z'' then CHR ''Z''
      else c)"
  by (simp add: canonicalize_def)

lemma canonicalize_cases:
  "canonicalize c = c \<or> (isLower c \<and> isUpper (canonicalize c))"
  by (simp add: canonicalize_table isLower_def isUpper_def)

lemma digit_not_letter:
  assumes "isDigit d"
  shows "\<not> isLower d \<and> \<not> isUpper d"
  using assms by (simp add: isDigit_def isLower_def isUpper_def less_eq_char_def)

lemma canonicalize_digit:
  assumes "isDigit d"
  shows "canonicalize c = d \<longleftrightarrow> c = d"
proof
  assume "c = d"
  then show "canonicalize c = d"
    using canonicalize_cases [of d] digit_not_letter [OF assms] by blast
next
  assume "canonicalize c = d"
  then show "c = d"
    using canonicalize_cases [of c] digit_not_letter [OF assms] by auto
qed

lemma matchesAt_iff:
  "matchesAt ic pat s \<longleftrightarrow>
     (\<exists>stretch after. s = stretch @ after \<and> list_all2 (charMatches ic) pat stretch)"
proof (induction ic pat s rule: matchesAt.induct)
  case (1 ic s)
  show ?case by simp
next
  case (2 ic p ps)
  show ?case by simp
next
  case (3 ic p ps c cs)
  show ?case
  proof
    assume "matchesAt ic (p # ps) (c # cs)"
    then have m: "charMatches ic p c" and "matchesAt ic ps cs" by simp_all
    then obtain stretch after where "cs = stretch @ after"
      and "list_all2 (charMatches ic) ps stretch"
      using "3.IH" by blast
    with m have "c # cs = (c # stretch) @ after
        \<and> list_all2 (charMatches ic) (p # ps) (c # stretch)"
      by simp
    then show "\<exists>stretch after. c # cs = stretch @ after
        \<and> list_all2 (charMatches ic) (p # ps) stretch"
      by blast
  next
    assume "\<exists>stretch after. c # cs = stretch @ after
        \<and> list_all2 (charMatches ic) (p # ps) stretch"
    then obtain stretch after where s: "c # cs = stretch @ after"
      and l: "list_all2 (charMatches ic) (p # ps) stretch"
      by blast
    from l obtain d ds where st: "stretch = d # ds" and m: "charMatches ic p d"
      and r: "list_all2 (charMatches ic) ps ds"
      by (cases stretch) simp_all
    from s st have "c = d" and "cs = ds @ after" by simp_all
    with m r "3.IH" show "matchesAt ic (p # ps) (c # cs)" by auto
  qed
qed

lemma regexp_test_iff:
  "regexp_test ic pat s \<longleftrightarrow>
     (\<exists>before stretch after. s = before @ stretch @ after
        \<and> list_all2 (charMatches ic) pat stretch)"
proof (induction s)
  case Nil
  show ?case by (simp add: matchesAt_iff)
next
  case (Cons c cs)
  show ?case
  proof
    assume "regexp_test ic pat (c # cs)"
    then consider "matchesAt ic pat (c # cs)" | "regexp_test ic pat cs" by auto
    then show "\<exists>before stretch after. c # cs = before @ stretch @ after
        \<and> list_all2 (charMatches ic) pat stretch"
    proof cases
      case 1
      then obtain stretch after where "c # cs = [] @ stretch @ after"
        and "list_all2 (charMatches ic) pat stretch"
        using matchesAt_iff [of ic pat "c # cs"] by auto
      then show ?thesis by blast
    next
      case 2
      then obtain before stretch after where "cs = before @ stretch @ after"
        and l: "list_all2 (charMatches ic) pat stretch"
        using Cons.IH by blast
      then have "c # cs = (c # before) @ stretch @ after" by simp
      with l show ?thesis by blast
    qed
  next
    assume "\<exists>before stretch after. c # cs = before @ stretch @ after
        \<and> list_all2 (charMatches ic) pat stretch"
    then obtain before stretch after where s: "c # cs = before @ stretch @ after"
      and l: "list_all2 (charMatches ic) pat stretch"
      by blast
    show "regexp_test ic pat (c # cs)"
    proof (cases before)
      case Nil
      with s l have "matchesAt ic pat (c # cs)"
        using matchesAt_iff [of ic pat "c # cs"] by auto
      then show ?thesis by simp
    next
      case (Cons b bs)
      with s have "cs = bs @ stretch @ after" by simp
      with l have "regexp_test ic pat cs" using Cons.IH by blast
      then show ?thesis by simp
    qed
  qed
qed

lemma ignoreCase_stretch:
  "list_all2 (charMatches True) pat stretch
     \<longleftrightarrow> map canonicalize stretch = map canonicalize pat"
proof (induction pat arbitrary: stretch)
  case Nil
  show ?case by simp
next
  case (Cons p ps)
  show ?case
    using Cons.IH by (cases stretch) (auto simp: charMatches_def)
qed

lemma digits_stretch:
  assumes "list_all isDigit pat"
  shows "list_all2 (charMatches False) pat stretch
     \<longleftrightarrow> map canonicalize stretch = map canonicalize pat"
  using assms
proof (induction pat arbitrary: stretch)
  case Nil
  show ?case by simp
next
  case (Cons p ps)
  then have d: "isDigit p" and ds: "list_all isDigit ps" by simp_all
  have cp: "canonicalize p = p"
    using canonicalize_digit [OF d, of p] by simp
  show ?case
  proof (cases stretch)
    case Nil
    then show ?thesis by simp
  next
    case (Cons c cs)
    have "charMatches False p c \<longleftrightarrow> canonicalize c = canonicalize p"
      using canonicalize_digit [OF d, of c] cp by (auto simp: charMatches_def)
    with Cons Cons.IH [OF ds, of cs] show ?thesis by simp
  qed
qed

lemma regexp_test_denyList:
  assumes "pattern \<in> set commonPatterns"
  shows "regexp_test (fst pattern) (snd pattern) s \<longleftrightarrow> containsIgnoringCase (snd pattern) s"
proof (cases "fst pattern")
  case True
  then show ?thesis
    by (simp add: regexp_test_iff ignoreCase_stretch containsIgnoringCase_def)
next
  case False
  with assms have "snd pattern = ''123456''"
    by (auto simp: commonPatterns_def)
  then have "list_all isDigit (snd pattern)"
    by (simp add: isDigit_def)
  with False show ?thesis
    by (simp add: regexp_test_iff digits_stretch containsIgnoringCase_def)
qed

lemma common_iff:
  "list_ex (\<lambda>pattern. regexp_test (fst pattern) (snd pattern) s) commonPatterns
     \<longleftrightarrow> (\<exists>word\<in>set denyList. containsIgnoringCase word s)"
proof -
  have "list_ex (\<lambda>pattern. regexp_test (fst pattern) (snd pattern) s) commonPatterns
      \<longleftrightarrow> (\<exists>pattern\<in>set commonPatterns. containsIgnoringCase (snd pattern) s)"
    using regexp_test_denyList by (auto simp: list_ex_iff)
  also have "\<dots> \<longleftrightarrow> (\<exists>word\<in>snd ` set commonPatterns. containsIgnoringCase word s)"
    by blast
  also have "snd ` set commonPatterns = set denyList"
    by (simp add: commonPatterns_def denyList_def)
  finally show ?thesis .
qed

lemma validatePassword_errors_empty:
  assumes "password \<noteq> []"
  shows "isValid (validatePassword password requireStrong) \<longleftrightarrow>
     \<not> length password < minPasswordLength \<and> \<not> length password > maxPasswordLength
     \<and> list_ex isUpper password \<and> list_ex isLower password \<and> list_ex isDigit password
     \<and> \<not> (requireStrong \<and> \<not> list_ex isSpecial password)
     \<and> \<not> list_ex (\<lambda>pattern. regexp_test (fst pattern) (snd pattern) password)
            commonPatterns"
  using assms by (simp add: validatePassword_def Let_def)

text \<open>
  Claim C9. \<open>isValid\<close> holds exactly when the length is between 8 and 128, the password
  has a character of \<open>A-Z\<close>, one of \<open>a-z\<close> and one of \<open>0-9\<close>, it has one of the
  special characters when strong mode is required, and it contains none of the
  deny-listed words, whatever the case of their letters.
\<close>

theorem validatePassword_isValid_iff:
  "isValid (validatePassword password requireStrong) \<longleftrightarrow>
     8 \<le> length password \<and> length password \<le> 128
     \<and> (\<exists>c\<in>set password. CHR ''A'' \<le> c \<and> c \<le> CHR ''Z'')
     \<and> (\<exists>c\<in>set password. CHR ''a'' \<le> c \<and> c \<le> CHR ''z'')
     \<and> (\<exists>c\<in>set password. CHR ''0'' \<le> c \<and> c \<le> CHR ''9'')
     \<and> (requireStrong \<longrightarrow> (\<exists>c\<in>set password. c \<in> set ''@$!%*?&''))
     \<and> (\<forall>word\<in>set denyList. \<not> containsIgnoringCase word password)"
proof (cases "password = []")
  case True
  then show ?thesis by (simp add: validatePassword_def)
next
  case False
  have "isValid (validatePassword password requireStrong) \<longleftrightarrow>
     8 \<le> length password \<and> length password \<le> 128
     \<and> list_ex isUpper password \<and> list_ex isLower password \<and> list_ex isDigit password
     \<and> (requireStrong \<longrightarrow> list_ex isSpecial password)
     \<and> \<not> (\<exists>word\<in>set denyList. containsIgnoringCase word password)"
    unfolding validatePassword_errors_empty [OF False] common_iff
    by (auto simp: minPasswordLength_def maxPasswordLength_def)
  then show ?thesis
    by (simp add: list_ex_iff isUpper_def isLower_def isDigit_def isSpecial_def)
qed

theorem validatePassword_isValid_iff_witness:
  "isValid (validatePassword ''Abcd1234!'' True)
   \<and> \<not> isValid (validatePassword ''Abcd1234'' True)
   \<and> isValid (validatePassword ''Abcd1234'' False)
   \<and> \<not> isValid (validatePassword ''MyPassWord1!'' True)
   \<and> \<not> containsIgnoringCase ''password'' ''Abcd1234!''"
proof -
  have a: "isValid (validatePassword ''Abcd1234!'' True)"
    by (simp add: validatePassword_def Let_def minPasswordLength_def maxPasswordLength_def
        isUpper_def isLower_def isDigit_def isSpecial_def commonPatterns_def
        charMatches_def canonicalize_table)
  have b: "\<not> isValid (validatePassword ''Abcd1234'' True)"
    using validatePassword_isValid_iff [of "''Abcd1234''" True] by simp
  have c: "isValid (validatePassword ''Abcd1234'' False)"
    by (simp add: validatePassword_def Let_def minPasswordLength_def maxPasswordLength_def
        isUpper_def isLower_def isDigit_def isSpecial_def commonPatterns_def
        charMatches_def canonicalize_table)
  have "''MyPassWord1!'' = ''My'' @ ''PassWord'' @ ''1!''
      \<and> map canonicalize ''PassWord'' = map canonicalize ''password''"
    by (simp add: canonicalize_table)
  then have "containsIgnoringCase ''password'' ''MyPassWord1!''"
    unfolding containsIgnoringCase_def by blast
  moreover have "''password'' \<in> set denyList"
    by (simp add: denyList_def)
  ultimately have d: "\<not> isValid (validatePassword ''MyPassWord1!'' True)"
    using validatePassword_isValid_iff [of "''MyPassWord1!''" True] by blast
  have "\<forall>word\<in>set denyList. \<not> containsIgnoringCase word ''Abcd1234!''"
    using a validatePassword_isValid_iff [of "''Abcd1234!''" True] by blast
  then have e: "\<not> containsIgnoringCase ''password'' ''Abcd1234!''"
    using \<open>''password'' \<in> set denyList\<close> by blast
  from a b c d e show ?thesis by blast
qed

subsection \<open>Password reset requests\<close>

lemma find_in_updated_users:
  assumes "find (\<lambda>r. u_id r = i) xs = Some x"
  shows "find (\<lambda>r. u_id r = i) (map (\<lambda>r. if u_id r = i then r\<lparr>u_attributes := a\<rparr> else r) xs)
           = Some (x\<lparr>u_attributes := a\<rparr>)"
  using assms by (induction xs) (simp_all split: if_splits)

lemma find_by_id_of_found:
  assumes "find P xs = Some (x :: user_row)"
  shows "\<exists>y. find (\<lambda>r. u_id r = u_id x) xs = Some y"
proof -
  from assms have "x \<in> set xs"
    by (induction xs) (simp_all split: if_splits)
  then have "\<exists>r\<in>set xs. u_id r = u_id x" by blast
  then show ?thesis
    by (cases "find (\<lambda>r. u_id r = u_id x) xs") (simp_all add: find_None_iff)
qed

lemma requestPasswordReset_dummy:
  assumes "online (w_db w)"
    and "find (\<lambda>u. u_email u = email) (users (w_db w)) = None
         \<or> (\<exists>u. find (\<lambda>u. u_email u = email) (users (w_db w)) = Some u \<and> \<not> u_isActive u)"
  shows "requestPasswordReset generatedToken toISOString email w
     = (Inr \<lparr>resetToken = ''dummy-token'', expiresAt = w_now w + 1000 + 900000\<rparr>,
        w\<lparr>w_now := w_now w + 1000\<rparr>)"
  using assms(2)
proof
  assume "find (\<lambda>u. u_email u = email) (users (w_db w)) = None"
  with assms(1) show ?thesis
    by (simp add: requestPasswordReset_def user_findUnique_email_selected_def query_def
        dummyReset_def setTimeout_def)
next
  assume "\<exists>u. find (\<lambda>u. u_email u = email) (users (w_db w)) = Some u \<and> \<not> u_isActive u"
  then obtain u where "find (\<lambda>u. u_email u = email) (users (w_db w)) = Some u"
    and "\<not> u_isActive u" by blast
  with assms(1) show ?thesis
    by (simp add: requestPasswordReset_def user_findUnique_email_selected_def query_def
        dummyReset_def setTimeout_def)
qed

lemma requestPasswordReset_active:
  assumes "online (w_db w)"
    and "find (\<lambda>u. u_email u = email) (users (w_db w)) = Some u" and "u_isActive u"
  shows "requestPasswordReset generatedToken toISOString email w
     = (Inr \<lparr>resetToken = generatedToken, expiresAt = w_now w + 900000\<rparr>,
        w\<lparr>w_db := (w_db w)\<lparr>users :=
             map (\<lambda>r. if u_id r = u_id u
                       then r\<lparr>u_attributes := Some (JObject
                              [(''passwordResetToken'', JString generatedToken),
                               (''passwordResetExpires'',
                                JString (toISOString (w_now w + 900000)))])\<rparr>
                       else r)
                 (users (w_db w))\<rparr>\<rparr>)"
  using assms
  by (simp add: requestPasswordReset_def user_findUnique_email_selected_def query_def
      user_update_attributes_def Let_def)

text \<open>
  Claim C7. When the email resolves to no user or to an inactive user, the request
  waits for the fixed delay of 1000 ms and returns the dummy token with an expiry 15
  minutes after the wait, leaving the database as it was. When it resolves to an active
  user, the request returns the generated token with an expiry 15 minutes from now,
  without the delay, and the user's row carries the token and the expiry in its
  attributes. Both results are a token string with an expiry instant.
\<close>

theorem requestPasswordReset_anti_enumeration:
  assumes "online (w_db w)"
  shows "((find (\<lambda>u. u_email u = email) (users (w_db w)) = None
           \<or> (\<exists>u. find (\<lambda>u. u_email u = email) (users (w_db w)) = Some u \<and> \<not> u_isActive u))
          \<longrightarrow> requestPasswordReset generatedToken toISOString email w
              = (Inr \<lparr>resetToken = ''dummy-token'',
                      expiresAt = w_now w + 1000 + 15 * 60 * 1000\<rparr>,
                 w\<lparr>w_now := w_now w + 1000\<rparr>))
       \<and> (find (\<lambda>u. u_email u = email) (users (w_db w)) = Some u \<and> u_isActive u
          \<longrightarrow> fst (requestPasswordReset generatedToken toISOString email w)
                = Inr \<lparr>resetToken = generatedToken, expiresAt = w_now w + 15 * 60 * 1000\<rparr>
              \<and> w_now (snd (requestPasswordReset generatedToken toISOString email w)) = w_now w
              \<and> map_option u_attributes
                    (find (\<lambda>r. u_id r = u_id u)
                       (users (w_db (snd (requestPasswordReset generatedToken toISOString
                                            email w)))))
                  = Some (Some (JObject
                      [(''passwordResetToken'', JString generatedToken),
                       (''passwordResetExpires'',
                        JString (toISOString (w_now w + 15 * 60 * 1000)))])))"
proof -
  have dummy: "requestPasswordReset generatedToken toISOString email w
      = (Inr \<lparr>resetToken = ''dummy-token'', expiresAt = w_now w + 1000 + 15 * 60 * 1000\<rparr>,
         w\<lparr>w_now := w_now w + 1000\<rparr>)"
    if "find (\<lambda>u. u_email u = email) (users (w_db w)) = None
         \<or> (\<exists>u. find (\<lambda>u. u_email u = email) (users (w_db w)) = Some u \<and> \<not> u_isActive u)"
    using requestPasswordReset_dummy [OF assms that] by simp
  have active: "fst (requestPasswordReset generatedToken toISOString email w)
        = Inr \<lparr>resetToken = generatedToken, expiresAt = w_now w + 15 * 60 * 1000\<rparr>
      \<and> w_now (snd (requestPasswordReset generatedToken toISOString email w)) = w_now w
      \<and> map_option u_attributes
            (find (\<lambda>r. u_id r = u_id u)
               (users (w_db (snd (requestPasswordReset generatedToken toISOString email w)))))
          = Some (Some (JObject
              [(''passwordResetToken'', JString generatedToken),
               (''passwordResetExpires'',
                JString (toISOString (w_now w + 15 * 60 * 1000)))]))"
    if f: "find (\<lambda>u. u_email u = email) (users (w_db w)) = Some u" and a: "u_isActive u"
  proof -
    obtain y where y: "find (\<lambda>r. u_id r = u_id u) (users (w_db w)) = Some y"
      using find_by_id_of_found [OF f] by blast
    show ?thesis
      unfolding requestPasswordReset_active [OF assms f a]
      by (simp add: find_in_updated_users [OF y])
  qed
  from dummy active show ?thesis by blast
qed

theorem requestPasswordReset_anti_enumeration_witness:
  "requestPasswordReset ''0f3a'' example_toISOString ''nobody@a.edu''
       \<lparr>w_db = service_database, w_now = 5000\<rparr>
     = (Inr \<lparr>resetToken = ''dummy-token'', expiresAt = 906000\<rparr>,
        \<lparr>w_db = service_database, w_now = 6000\<rparr>)
   \<and> requestPasswordReset ''0f3a'' example_toISOString ''dormant@a.edu''
       \<lparr>w_db = service_database, w_now = 5000\<rparr>
     = (Inr \<lparr>resetToken = ''dummy-token'', expiresAt = 906000\<rparr>,
        \<lparr>w_db = service_database, w_now = 6000\<rparr>)
   \<and> fst (requestPasswordReset ''0f3a'' example_toISOString ''teacher@a.edu''
       \<lparr>w_db = service_database, w_now = 5000\<rparr>)
     = Inr \<lparr>resetToken = ''0f3a'', expiresAt = 905000\<rparr>"
proof -
  let ?w = "\<lparr>w_db = service_database, w_now = 5000\<rparr>"
  have on: "online (w_db ?w)"
    by (simp add: service_database_def empty_database_def)
  have nobody: "find (\<lambda>u. u_email u = ''nobody@a.edu'') (users (w_db ?w)) = None"
    by (simp add: service_database_def empty_database_def example_user_def)
  have dormant: "\<exists>u. find (\<lambda>u. u_email u = ''dormant@a.edu'') (users (w_db ?w)) = Some u
      \<and> \<not> u_isActive u"
    by (simp add: service_database_def empty_database_def example_user_def)
  have teacher: "find (\<lambda>u. u_email u = ''teacher@a.edu'') (users (w_db ?w))
      = Some (example_user ''1'' ''teacher@a.edu'')
      \<and> u_isActive (example_user ''1'' ''teacher@a.edu'')"
    by (simp add: service_database_def empty_database_def example_user_def)
  have a: "requestPasswordReset ''0f3a'' example_toISOString ''nobody@a.edu'' ?w
     = (Inr \<lparr>resetToken = ''dummy-token'', expiresAt = 906000\<rparr>,
        \<lparr>w_db = service_database, w_now = 6000\<rparr>)"
    using requestPasswordReset_anti_enumeration [OF on, where email = "''nobody@a.edu''"
        and generatedToken = "''0f3a''" and toISOString = example_toISOString] nobody
    by simp
  have b: "requestPasswordReset ''0f3a'' example_toISOString ''dormant@a.edu'' ?w
     = (Inr \<lparr>resetToken = ''dummy-token'', expiresAt = 906000\<rparr>,
        \<lparr>w_db = service_database, w_now = 6000\<rparr>)"
    using requestPasswordReset_anti_enumeration [OF on, where email = "''dormant@a.edu''"
        and generatedToken = "''0f3a''" and toISOString = example_toISOString] dormant
    by simp
  have c: "fst (requestPasswordReset ''0f3a'' example_toISOString ''teacher@a.edu'' ?w)
     = Inr \<lparr>resetToken = ''0f3a'', expiresAt = 905000\<rparr>"
    using requestPasswordReset_anti_enumeration [OF on, where email = "''teacher@a.edu''"
        and u = "example_user ''1'' ''teacher@a.edu''"
        and generatedToken = "''0f3a''" and toISOString = example_toISOString] teacher
    by simp
  from a b c show ?thesis by blast
qed

subsection \<open>Login failures\<close>

lemma user_findUnique_email_None:
  assumes "online db" and "find (\<lambda>u. u_email u = email) (users db) = None"
  shows "user_findUnique_email db email = Resolved None"
  using assms by (simp add: user_findUnique_email_def query_def)

lemma user_findUnique_email_Some:
  assumes "online db" and "find (\<lambda>u. u_email u = email) (users db) = Some u"
  shows "user_findUnique_email db email = Resolved (Some (include_relations db u))"
  using assms by (simp add: user_findUnique_email_def query_def)

lemma uw_user_include [simp]: "uw_user (include_relations db u) = u"
  by (simp add: include_relations_def)

lemma institution_status_None:
  assumes "uw_institution r = None"
  shows "institution_status r = None"
  using assms by (simp add: institution_status_def)

lemma loginUser_no_user:
  assumes "online db" and "find (\<lambda>u. u_email u = ld_email data) (users db) = None"
  shows "loginUser bcrypt_compare jwt now data db = (Inl invalidCredentials, db)"
  by (simp add: loginUser_def user_findUnique_email_None [OF assms])

lemma loginUser_inactive_user:
  assumes "online db" and "find (\<lambda>u. u_email u = ld_email data) (users db) = Some u"
    and "\<not> u_isActive u"
  shows "loginUser bcrypt_compare jwt now data db = (Inl (AppError ''Usuario inactivo'' 401), db)"
  using assms(3) by (simp add: loginUser_def user_findUnique_email_Some [OF assms(1,2)])

lemma loginUser_inactive_institution:
  assumes "online db" and "find (\<lambda>u. u_email u = ld_email data) (users db) = Some u"
    and "u_isActive u" and "institution_status (include_relations db u) \<noteq> Some ''active''"
  shows "loginUser bcrypt_compare jwt now data db
     = (Inl (AppError (''Instituci'' @ [CHR 0xF3] @ ''n inactiva'') 403), db)"
  using assms(3,4) by (simp add: loginUser_def user_findUnique_email_Some [OF assms(1,2)])

lemma loginUser_no_password:
  assumes "online db" and "find (\<lambda>u. u_email u = ld_email data) (users db) = Some u"
    and "u_isActive u" and "institution_status (include_relations db u) = Some ''active''"
    and "falsy (u_password u)"
  shows "loginUser bcrypt_compare jwt now data db = (Inl invalidCredentials, db)"
proof -
  from assms(4) obtain inst where "uw_institution (include_relations db u) = Some inst"
    using institution_status_None [of "include_relations db u"] by fastforce
  with assms(3,4,5) show ?thesis
    by (simp add: loginUser_def user_findUnique_email_Some [OF assms(1,2)] falsy_def
        split: option.splits)
qed

lemma loginUser_wrong_password:
  assumes "online db" and "find (\<lambda>u. u_email u = ld_email data) (users db) = Some u"
    and "u_isActive u" and "institution_status (include_relations db u) = Some ''active''"
    and "u_password u = Some hash"
    and "\<not> verifyPassword bcrypt_compare (ld_password data) hash"
  shows "loginUser bcrypt_compare jwt now data db = (Inl invalidCredentials, db)"
proof -
  from assms(4) obtain inst where "uw_institution (include_relations db u) = Some inst"
    using institution_status_None [of "include_relations db u"] by fastforce
  with assms(3,4,5,6) show ?thesis
    by (simp add: loginUser_def user_findUnique_email_Some [OF assms(1,2)])
qed

text \<open>
  Claim C4, as amended. With the database reachable: an email that resolves to no user
  fails with the generic 401 error; for an active user of an active institution, a
  password that is not set and a password that does not verify fail with that same
  error; an inactive user fails with 401 \<open>Usuario inactivo\<close>, and an active user of an
  institution that is not active with 403, both before the password is looked at. The
  three errors are pairwise different.
\<close>

theorem loginUser_failure_reasons:
  assumes "online db"
  shows "(find (\<lambda>u. u_email u = ld_email data) (users db) = None
            \<longrightarrow> fst (loginUser bcrypt_compare jwt now data db) = Inl invalidCredentials)
       \<and> (find (\<lambda>u. u_email u = ld_email data) (users db) = Some u \<and> u_isActive u
            \<and> institution_status (include_relations db u) = Some ''active''
            \<and> falsy (u_password u)
            \<longrightarrow> fst (loginUser bcrypt_compare jwt now data db) = Inl invalidCredentials)
       \<and> (find (\<lambda>u. u_email u = ld_email data) (users db) = Some u \<and> u_isActive u
            \<and> institution_status (include_relations db u) = Some ''active''
            \<and> u_password u = Some hash
            \<and> \<not> verifyPassword bcrypt_compare (ld_password data) hash
            \<longrightarrow> fst (loginUser bcrypt_compare jwt now data db) = Inl invalidCredentials)
       \<and> (find (\<lambda>u. u_email u = ld_email data) (users db) = Some u \<and> \<not> u_isActive u
            \<longrightarrow> fst (loginUser bcrypt_compare jwt now data db)
                  = Inl (AppError ''Usuario inactivo'' 401))
       \<and> (find (\<lambda>u. u_email u = ld_email data) (users db) = Some u \<and> u_isActive u
            \<and> institution_status (include_relations db u) \<noteq> Some ''active''
            \<longrightarrow> fst (loginUser bcrypt_compare jwt now data db)
                  = Inl (AppError (''Instituci'' @ [CHR 0xF3] @ ''n inactiva'') 403))
       \<and> invalidCredentials = AppError (''Credenciales inv'' @ [CHR 0xE1] @ ''lidas'') 401
       \<and> AppError ''Usuario inactivo'' 401 \<noteq> invalidCredentials
       \<and> AppError (''Instituci'' @ [CHR 0xF3] @ ''n inactiva'') 403 \<noteq> invalidCredentials
       \<and> AppError ''Usuario inactivo'' 401
           \<noteq> AppError (''Instituci'' @ [CHR 0xF3] @ ''n inactiva'') 403"
proof -
  have distinct: "invalidCredentials = AppError (''Credenciales inv'' @ [CHR 0xE1] @ ''lidas'') 401"
    "AppError ''Usuario inactivo'' 401 \<noteq> invalidCredentials"
    "AppError (''Instituci'' @ [CHR 0xF3] @ ''n inactiva'') 403 \<noteq> invalidCredentials"
    "AppError ''Usuario inactivo'' 401 \<noteq> AppError (''Instituci'' @ [CHR 0xF3] @ ''n inactiva'') 403"
    by (simp_all add: invalidCredentials_def)
  note cases = loginUser_no_user [OF assms] loginUser_no_password [OF assms]
    loginUser_wrong_password [OF assms] loginUser_inactive_user [OF assms]
    loginUser_inactive_institution [OF assms]
  show ?thesis
    by (intro conjI impI; (elim conjE)?) (simp_all add: cases distinct)
qed

theorem loginUser_failure_reasons_witness:
  "fst (loginUser example_bcrypt example_jwt 0
          \<lparr>ld_email = ''nobody@a.edu'', ld_password = ''Secret123!''\<rparr> service_database)
     = Inl invalidCredentials
   \<and> fst (loginUser example_bcrypt example_jwt 0
          \<lparr>ld_email = ''nopass@a.edu'', ld_password = ''Secret123!''\<rparr> service_database)
     = Inl invalidCredentials
   \<and> fst (loginUser example_bcrypt example_jwt 0
          \<lparr>ld_email = ''teacher@a.edu'', ld_password = ''guess''\<rparr> service_database)
     = Inl invalidCredentials
   \<and> fst (loginUser example_bcrypt example_jwt 0
          \<lparr>ld_email = ''dormant@a.edu'', ld_password = ''Secret123!''\<rparr> service_database)
     = Inl (AppError ''Usuario inactivo'' 401)
   \<and> fst (loginUser example_bcrypt example_jwt 0
          \<lparr>ld_email = ''closed@b.edu'', ld_password = ''Secret123!''\<rparr> service_database)
     = Inl (AppError (''Instituci'' @ [CHR 0xF3] @ ''n inactiva'') 403)"
proof -
  have on: "online service_database"
    by (simp add: service_database_def empty_database_def)
  note db = service_database_def empty_database_def example_user_def include_relations_def
    institution_status_def
  have nobody: "find (\<lambda>u. u_email u = ''nobody@a.edu'') (users service_database) = None"
    by (simp add: db)
  have nopass: "find (\<lambda>u. u_email u = ''nopass@a.edu'') (users service_database)
        = Some ((example_user ''2'' ''nopass@a.edu'')\<lparr>u_password := None\<rparr>)"
    "u_isActive ((example_user ''2'' ''nopass@a.edu'')\<lparr>u_password := None\<rparr>)"
    "institution_status (include_relations service_database
        ((example_user ''2'' ''nopass@a.edu'')\<lparr>u_password := None\<rparr>)) = Some ''active''"
    "falsy (u_password ((example_user ''2'' ''nopass@a.edu'')\<lparr>u_password := None\<rparr>))"
    by (simp_all add: db falsy_def)
  have teacher: "find (\<lambda>u. u_email u = ''teacher@a.edu'') (users service_database)
        = Some (example_user ''1'' ''teacher@a.edu'')"
    "u_isActive (example_user ''1'' ''teacher@a.edu'')"
    "institution_status (include_relations service_database
        (example_user ''1'' ''teacher@a.edu'')) = Some ''active''"
    "u_password (example_user ''1'' ''teacher@a.edu'') = Some ''$2a$12$hash''"
    "\<not> verifyPassword example_bcrypt ''guess'' ''$2a$12$hash''"
    by (simp_all add: db verifyPassword_def example_bcrypt_def)
  have dormant: "find (\<lambda>u. u_email u = ''dormant@a.edu'') (users service_database)
        = Some ((example_user ''3'' ''dormant@a.edu'')\<lparr>u_password := None, u_isActive := False\<rparr>)"
    "\<not> u_isActive ((example_user ''3'' ''dormant@a.edu'')
        \<lparr>u_password := None, u_isActive := False\<rparr>)"
    by (simp_all add: db)
  have closed: "find (\<lambda>u. u_email u = ''closed@b.edu'') (users service_database)
        = Some ((example_user ''4'' ''closed@b.edu'')\<lparr>u_institutionId := Some ''inst-b''\<rparr>)"
    "u_isActive ((example_user ''4'' ''closed@b.edu'')\<lparr>u_institutionId := Some ''inst-b''\<rparr>)"
    "institution_status (include_relations service_database
        ((example_user ''4'' ''closed@b.edu'')\<lparr>u_institutionId := Some ''inst-b''\<rparr>))
       \<noteq> Some ''active''"
    by (simp_all add: db)
  have a: "fst (loginUser example_bcrypt example_jwt 0
          \<lparr>ld_email = ''nobody@a.edu'', ld_password = ''Secret123!''\<rparr> service_database)
     = Inl invalidCredentials"
    using loginUser_failure_reasons [OF on, where bcrypt_compare = example_bcrypt
        and jwt = example_jwt and now = 0
        and data = "\<lparr>ld_email = ''nobody@a.edu'', ld_password = ''Secret123!''\<rparr>"] nobody
    by simp
  have b: "fst (loginUser example_bcrypt example_jwt 0
          \<lparr>ld_email = ''nopass@a.edu'', ld_password = ''Secret123!''\<rparr> service_database)
     = Inl invalidCredentials"
    using loginUser_failure_reasons [OF on, where bcrypt_compare = example_bcrypt
        and jwt = example_jwt and now = 0
        and data = "\<lparr>ld_email = ''nopass@a.edu'', ld_password = ''Secret123!''\<rparr>"
        and u = "(example_user ''2'' ''nopass@a.edu'')\<lparr>u_password := None\<rparr>"] nopass
    by simp
  have c: "fst (loginUser example_bcrypt example_jwt 0
          \<lparr>ld_email = ''teacher@a.edu'', ld_password = ''guess''\<rparr> service_database)
     = Inl invalidCredentials"
    using loginUser_failure_reasons [OF on, where bcrypt_compare = example_bcrypt
        and jwt = example_jwt and now = 0
        and data = "\<lparr>ld_email = ''teacher@a.edu'', ld_password = ''guess''\<rparr>"
        and u = "example_user ''1'' ''teacher@a.edu''" and hash = "''$2a$12$hash''"] teacher
    by simp
  have d: "fst (loginUser example_bcrypt example_jwt 0
          \<lparr>ld_email = ''dormant@a.edu'', ld_password = ''Secret123!''\<rparr> service_database)
     = Inl (AppError ''Usuario inactivo'' 401)"
    using loginUser_failure_reasons [OF on, where bcrypt_compare = example_bcrypt
        and jwt = example_jwt and now = 0
        and data = "\<lparr>ld_email = ''dormant@a.edu'', ld_password = ''Secret123!''\<rparr>"
        and u = "(example_user ''3'' ''dormant@a.edu'')\<lparr>u_password := None, u_isActive := False\<rparr>"]
      dormant
    by simp
  have e: "fst (loginUser example_bcrypt example_jwt 0
          \<lparr>ld_email = ''closed@b.edu'', ld_password = ''Secret123!''\<rparr> service_database)
     = Inl (AppError (''Instituci'' @ [CHR 0xF3] @ ''n inactiva'') 403)"
    using loginUser_failure_reasons [OF on, where bcrypt_compare = example_bcrypt
        and jwt = example_jwt and now = 0
        and data = "\<lparr>ld_email = ''closed@b.edu'', ld_password = ''Secret123!''\<rparr>"
        and u = "(example_user ''4'' ''closed@b.edu'')\<lparr>u_institutionId := Some ''inst-b''\<rparr>"]
      closed
    by simp
  from a b c d e show ?thesis by blast
qed

text \<open>
  The claim as it was stated fails for a user who has no password set and is inactive:
  the inactive check comes first, and the caller gets \<open>Usuario inactivo\<close> instead of the
  generic error.
\<close>

theorem loginUser_failure_reasons_counterexample:
  "u_email (users service_database ! 2) = ''dormant@a.edu''
   \<and> u_password (users service_database ! 2) = None
   \<and> fst (loginUser example_bcrypt example_jwt 0
          \<lparr>ld_email = ''dormant@a.edu'', ld_password = ''Secret123!''\<rparr> service_database)
       = Inl (AppError ''Usuario inactivo'' 401)
   \<and> AppError ''Usuario inactivo'' 401 \<noteq> invalidCredentials"
  by (simp add: service_database_def empty_database_def example_user_def loginUser_def
      user_findUnique_email_def query_def invalidCredentials_def)

subsection \<open>Token refresh\<close>

lemma find_filter_head:
  "find P xs = (case filter P xs of [] \<Rightarrow> None | x # _ \<Rightarrow> Some x)"
  by (induction xs) simp_all

lemma primaryRole_currentRole: "primaryRole assignments = currentRole assignments"
  by (simp add: primaryRole_def currentRole_def find_filter_head split: list.splits)

lemma user_findUnique_id_None:
  assumes "online db" and "find (\<lambda>u. u_id u = userId) (users db) = None"
  shows "user_findUnique_id db userId = Resolved None"
  using assms by (simp add: user_findUnique_id_def query_def)

lemma user_findUnique_id_Some:
  assumes "online db" and "find (\<lambda>u. u_id u = userId) (users db) = Some u"
  shows "user_findUnique_id db userId = Resolved (Some (include_relations db u))"
  using assms by (simp add: user_findUnique_id_def query_def)

lemma verifyRefreshToken_valid:
  assumes "verify_refresh jwt tok = Inr decoded"
  shows "verifyRefreshToken jwt tok = Inr decoded"
  using assms by (simp add: verifyRefreshToken_def)

lemma refreshTokens_no_user:
  assumes "verify_refresh jwt tok = Inr decoded" and "online db"
    and "find (\<lambda>u. u_id u = rt_userId decoded) (users db) = None"
  shows "refreshTokens jwt tok db
     = Inl (AppError (''Token de refresh inv'' @ [CHR 0xE1] @ ''lido'') 401)"
  by (simp add: refreshTokens_def verifyRefreshToken_valid [OF assms(1)]
      user_findUnique_id_None [OF assms(2,3)])

lemma refreshTokens_inactive:
  assumes "verify_refresh jwt tok = Inr decoded" and "online db"
    and "find (\<lambda>u. u_id u = rt_userId decoded) (users db) = Some u"
    and "\<not> u_isActive u \<or> institution_status (include_relations db u) \<noteq> Some ''active''"
  shows "refreshTokens jwt tok db
     = Inl (AppError (''Token de refresh inv'' @ [CHR 0xE1] @ ''lido'') 401)"
  using assms(4)
  by (auto simp add: refreshTokens_def verifyRefreshToken_valid [OF assms(1)]
      user_findUnique_id_Some [OF assms(2,3)])

lemma refreshTokens_no_role:
  assumes "verify_refresh jwt tok = Inr decoded" and "online db"
    and "find (\<lambda>u. u_id u = rt_userId decoded) (users db) = Some u"
    and "u_isActive u" and "institution_status (include_relations db u) = Some ''active''"
    and "currentRole (uw_userRoles (include_relations db u)) = None"
  shows "refreshTokens jwt tok db = Inl (AppError ''Usuario sin roles asignados'' 403)"
  using assms(4,5,6)
  by (simp add: refreshTokens_def verifyRefreshToken_valid [OF assms(1)]
      user_findUnique_id_Some [OF assms(2,3)] primaryRole_currentRole)

lemma refreshTokens_issued:
  assumes "verify_refresh jwt tok = Inr decoded" and "online db"
    and "find (\<lambda>u. u_id u = rt_userId decoded) (users db) = Some u"
    and "u_isActive u" and "institution_status (include_relations db u) = Some ''active''"
    and "currentRole (uw_userRoles (include_relations db u)) = Some (assignment, role)"
    and "sign_access jwt
           \<lparr>jwt_userId = u_id u, jwt_institutionId = u_institutionId u,
            jwt_roleId = ur_roleId assignment, jwt_roleName = ro_name role,
            jwt_email = u_email u\<rparr> = Some access"
    and "sign_refresh jwt \<lparr>rt_userId = u_id u, rt_institutionId = u_institutionId u\<rparr>
           = Some refresh"
  shows "refreshTokens jwt tok db
     = Inr \<lparr>accessToken = access, refreshToken = refresh, expiresIn = JWT_EXPIRES_IN jwt,
            tokenType = ''Bearer''\<rparr>"
  using assms(4-8)
  by (simp add: refreshTokens_def verifyRefreshToken_valid [OF assms(1)]
      user_findUnique_id_Some [OF assms(2,3)] primaryRole_currentRole generateTokenPair_def
      generateAccessToken_def generateRefreshToken_def)

text \<open>
  Claim C6, as amended. For a refresh token that verifies, with the database
  reachable: a principal that no longer exists, is inactive, or whose institution is
  not active gives the 401 error. Otherwise a principal without any role assignment
  gives the 403 error, and a principal with one gets a new pair, signed for its current
  role (the primary assignment, else the first one): the role name in the claims of the
  new access token is the name of that role now, whatever it was when the refresh
  token was issued.
\<close>

theorem refreshTokens_latest_role:
  assumes "verify_refresh jwt tok = Inr decoded" and "online db"
  shows "(find (\<lambda>u. u_id u = rt_userId decoded) (users db) = None
            \<longrightarrow> refreshTokens jwt tok db
                  = Inl (AppError (''Token de refresh inv'' @ [CHR 0xE1] @ ''lido'') 401))
       \<and> (find (\<lambda>u. u_id u = rt_userId decoded) (users db) = Some u
            \<and> (\<not> u_isActive u
                 \<or> institution_status (include_relations db u) \<noteq> Some ''active'')
            \<longrightarrow> refreshTokens jwt tok db
                  = Inl (AppError (''Token de refresh inv'' @ [CHR 0xE1] @ ''lido'') 401))
       \<and> (find (\<lambda>u. u_id u = rt_userId decoded) (users db) = Some u \<and> u_isActive u
            \<and> institution_status (include_relations db u) = Some ''active''
            \<and> currentRole (uw_userRoles (include_relations db u)) = None
            \<longrightarrow> refreshTokens jwt tok db = Inl (AppError ''Usuario sin roles asignados'' 403))
       \<and> (find (\<lambda>u. u_id u = rt_userId decoded) (users db) = Some u \<and> u_isActive u
            \<and> institution_status (include_relations db u) = Some ''active''
            \<and> currentRole (uw_userRoles (include_relations db u)) = Some (assignment, role)
            \<and> sign_access jwt
                  \<lparr>jwt_userId = u_id u, jwt_institutionId = u_institutionId u,
                   jwt_roleId = ur_roleId assignment, jwt_roleName = ro_name role,
                   jwt_email = u_email u\<rparr> = Some access
            \<and> sign_refresh jwt \<lparr>rt_userId = u_id u, rt_institutionId = u_institutionId u\<rparr>
                  = Some refresh
            \<longrightarrow> refreshTokens jwt tok db
                  = Inr \<lparr>accessToken = access, refreshToken = refresh,
                         expiresIn = JWT_EXPIRES_IN jwt, tokenType = ''Bearer''\<rparr>)"
proof -
  note cases = refreshTokens_no_user [OF assms] refreshTokens_inactive [OF assms]
    refreshTokens_no_role [OF assms] refreshTokens_issued [OF assms]
  show ?thesis
    by (intro conjI impI; (elim conjE)?) (simp_all add: cases)
qed

theorem refreshTokens_latest_role_witness:
  "refreshTokens example_jwt ''refresh-u1'' service_database
     = Inr \<lparr>accessToken = ''access:u1:TEACHER'', refreshToken = ''refresh:u1'',
            expiresIn = ''24h'', tokenType = ''Bearer''\<rparr>
   \<and> refreshTokens example_jwt ''refresh-u1'' promoted_database
     = Inr \<lparr>accessToken = ''access:u1:DIRECTOR'', refreshToken = ''refresh:u1'',
            expiresIn = ''24h'', tokenType = ''Bearer''\<rparr>"
proof -
  let ?u = "example_user ''1'' ''teacher@a.edu''"
  let ?decoded = "\<lparr>rt_userId = ''u1'', rt_institutionId = Some ''inst-a''\<rparr>"
  note db = service_database_def promoted_database_def empty_database_def example_user_def
    include_relations_def institution_status_def
  have tok: "verify_refresh example_jwt ''refresh-u1'' = Inr ?decoded"
    by (simp add: example_jwt_def)
  have on: "online service_database" "online promoted_database"
    by (simp_all add: db)
  have before: "find (\<lambda>u. u_id u = rt_userId ?decoded) (users service_database) = Some ?u"
    "u_isActive ?u"
    "institution_status (include_relations service_database ?u) = Some ''active''"
    "currentRole (uw_userRoles (include_relations service_database ?u))
       = Some (\<lparr>ur_userId = ''u1'', ur_roleId = ''r-teacher'', ur_isPrimary = True\<rparr>,
               \<lparr>ro_id = ''r-teacher'', ro_name = ''TEACHER''\<rparr>)"
    by (simp_all add: db currentRole_def)
  have after: "find (\<lambda>u. u_id u = rt_userId ?decoded) (users promoted_database) = Some ?u"
    "institution_status (include_relations promoted_database ?u) = Some ''active''"
    "currentRole (uw_userRoles (include_relations promoted_database ?u))
       = Some (\<lparr>ur_userId = ''u1'', ur_roleId = ''r-director'', ur_isPrimary = True\<rparr>,
               \<lparr>ro_id = ''r-director'', ro_name = ''DIRECTOR''\<rparr>)"
    by (simp_all add: db currentRole_def)
  have sign: "sign_access example_jwt
        \<lparr>jwt_userId = u_id ?u, jwt_institutionId = u_institutionId ?u,
         jwt_roleId = ''r-teacher'', jwt_roleName = ''TEACHER'', jwt_email = u_email ?u\<rparr>
       = Some ''access:u1:TEACHER''"
    "sign_access example_jwt
        \<lparr>jwt_userId = u_id ?u, jwt_institutionId = u_institutionId ?u,
         jwt_roleId = ''r-director'', jwt_roleName = ''DIRECTOR'', jwt_email = u_email ?u\<rparr>
       = Some ''access:u1:DIRECTOR''"
    "sign_refresh example_jwt \<lparr>rt_userId = u_id ?u, rt_institutionId = u_institutionId ?u\<rparr>
       = Some ''refresh:u1''"
    "JWT_EXPIRES_IN example_jwt = ''24h''"
    by (simp_all add: example_jwt_def example_user_def)
  have a: "refreshTokens example_jwt ''refresh-u1'' service_database
     = Inr \<lparr>accessToken = ''access:u1:TEACHER'', refreshToken = ''refresh:u1'',
            expiresIn = ''24h'', tokenType = ''Bearer''\<rparr>"
    using refreshTokens_latest_role [OF tok on(1), where u = "?u"
        and assignment = "\<lparr>ur_userId = ''u1'', ur_roleId = ''r-teacher'', ur_isPrimary = True\<rparr>"
        and role = "\<lparr>ro_id = ''r-teacher'', ro_name = ''TEACHER''\<rparr>"
        and access = "''access:u1:TEACHER''" and refresh = "''refresh:u1''"]
      before sign
    by simp
  have b: "refreshTokens example_jwt ''refresh-u1'' promoted_database
     = Inr \<lparr>accessToken = ''access:u1:DIRECTOR'', refreshToken = ''refresh:u1'',
            expiresIn = ''24h'', tokenType = ''Bearer''\<rparr>"
    using refreshTokens_latest_role [OF tok on(2), where u = "?u"
        and assignment = "\<lparr>ur_userId = ''u1'', ur_roleId = ''r-director'', ur_isPrimary = True\<rparr>"
        and role = "\<lparr>ro_id = ''r-director'', ro_name = ''DIRECTOR''\<rparr>"
        and access = "''access:u1:DIRECTOR''" and refresh = "''refresh:u1''"]
      before(2) after sign
    by simp
  from a b show ?thesis by blast
qed

text \<open>
  The claim as it was stated fails for an active principal of an active institution
  that has no role assignment: no pair is issued, the refresh fails with 403.
\<close>

theorem refreshTokens_latest_role_counterexample:
  "u_id (users service_database ! 1) = ''u2''
   \<and> u_isActive (users service_database ! 1)
   \<and> institution_status (include_relations service_database (users service_database ! 1))
       = Some ''active''
   \<and> refreshTokens example_jwt ''refresh-u2'' service_database
       = Inl (AppError ''Usuario sin roles asignados'' 403)"
  by (simp add: service_database_def empty_database_def example_user_def
      include_relations_def institution_status_def refreshTokens_def verifyRefreshToken_def
      example_jwt_def user_findUnique_id_def query_def primaryRole_def)

end
